theory Spec2Isabelle
  imports Complex_Main "HOL-Library.Sublist"
begin

section \<open>The simulation core of the lane-driving game (src/backup.ts)\<close>

text \<open>
  The embedding follows the source class by class. JavaScript numbers are modelled as
  \<^typ>\<open>real\<close> (rounding of IEEE doubles is not represented); lane indices, directions,
  counters and wall-clock timestamps as \<^typ>\<open>int\<close>. The two impure primitives of the
  source, \<^verbatim>\<open>Math.random()\<close> and \<^verbatim>\<open>Date.now()\<close>, read an explicit environment: each call
  consumes the next element of a stream, so every function that calls them takes the
  environment and returns the remaining one.
\<close>

subsection \<open>GAME_CONFIG and GAME_STATE\<close>

definition GAME_DURATION :: real where "GAME_DURATION = 60000"
definition LANES :: "real list" where "LANES = [100, 200, 300]"
definition SPEED_INCREASE_20S :: real where "SPEED_INCREASE_20S = 1.1"
definition SPEED_INCREASE_40S :: real where "SPEED_INCREASE_40S = 1.2"
definition CANVAS_WIDTH :: real where "CANVAS_WIDTH = 400"
definition PLAYER_WIDTH :: real where "PLAYER_WIDTH = 80"
definition PLAYER_HEIGHT :: real where "PLAYER_HEIGHT = 120"
definition LANE_CHANGE_DURATION :: real where "LANE_CHANGE_DURATION = 150"
definition NPC_SPEED :: real where "NPC_SPEED = 200"
definition NPC_SPAWN_INTERVAL :: int where "NPC_SPAWN_INTERVAL = 2000"
definition MAX_NPCS :: nat where "MAX_NPCS = 8"
definition COIN_SIZE :: real where "COIN_SIZE = 25"
definition COIN_SPAWN_CHANCE :: real where "COIN_SPAWN_CHANCE = 0.35"
definition COIN_SPAWN_INTERVAL :: int where "COIN_SPAWN_INTERVAL = 600"
definition MAX_COINS :: nat where "MAX_COINS = 20"
definition COIN_BURST_PARTICLES :: nat where "COIN_BURST_PARTICLES = 20"
definition MAX_POWER :: real where "MAX_POWER = 120"
definition POWER_DECAY_RATE :: real where "POWER_DECAY_RATE = 1"
definition POWERUP_SPAWN_CHANCE :: real where "POWERUP_SPAWN_CHANCE = 0.08"
definition MAX_POWERUPS :: nat where "MAX_POWERUPS = 6"
definition SHIELD_DURATION :: int where "SHIELD_DURATION = 8000"
definition HAZARD_SPAWN_CHANCE :: real where "HAZARD_SPAWN_CHANCE = 0.08"
definition MAX_HAZARDS :: nat where "MAX_HAZARDS = 8"
definition GRAVITY :: real where "GRAVITY = 0.3"

lemmas GAME_CONFIG =
  GAME_DURATION_def LANES_def SPEED_INCREASE_20S_def SPEED_INCREASE_40S_def
  CANVAS_WIDTH_def PLAYER_WIDTH_def PLAYER_HEIGHT_def LANE_CHANGE_DURATION_def
  NPC_SPEED_def NPC_SPAWN_INTERVAL_def MAX_NPCS_def COIN_SIZE_def
  COIN_SPAWN_CHANCE_def COIN_SPAWN_INTERVAL_def MAX_COINS_def
  COIN_BURST_PARTICLES_def MAX_POWER_def POWER_DECAY_RATE_def
  POWERUP_SPAWN_CHANCE_def MAX_POWERUPS_def SHIELD_DURATION_def
  HAZARD_SPAWN_CHANCE_def MAX_HAZARDS_def GRAVITY_def

text \<open>
  \<^verbatim>\<open>GAME_CONFIG.LANES[i]\<close>. The source only indexes with 0, 1 or 2 (lane draws are
  \<^verbatim>\<open>Math.floor(Math.random() * 3)\<close>, the player's lanes are clamped). Outside that range
  JavaScript yields \<^verbatim>\<open>undefined\<close>, which the real-valued model does not represent; the
  stand-in there is 0.
\<close>

definition LANES_at :: "int \<Rightarrow> real" where
  "LANES_at i = (if 0 \<le> i \<and> i < int (length LANES) then LANES ! nat i else 0)"

datatype GAME_STATE = SPLASH | LOADING | PLAYING | PAUSED | GAME_OVER | LEAD_FORM

subsection \<open>The environment: random draws, the wall clock, the viewport\<close>

record env =
  rnd :: "nat \<Rightarrow> real"
  clk :: "nat \<Rightarrow> int"
  CANVAS_HEIGHT :: real

text \<open>\<^verbatim>\<open>Math.random()\<close>: the next draw, and the environment without it.\<close>

definition Math_random :: "env \<Rightarrow> real \<times> env" where
  "Math_random e = (rnd e 0, e\<lparr>rnd := (\<lambda>n. rnd e (Suc n))\<rparr>)"

text \<open>\<^verbatim>\<open>Date.now()\<close>: the next reading of the clock.\<close>

definition Date_now :: "env \<Rightarrow> int \<times> env" where
  "Date_now e = (clk e 0, e\<lparr>clk := (\<lambda>n. clk e (Suc n))\<rparr>)"

text \<open>Skipping \<open>k\<close> draws that a block of the source has consumed.\<close>

definition drop_rnd :: "nat \<Rightarrow> env \<Rightarrow> env" where
  "drop_rnd k e = e\<lparr>rnd := (\<lambda>n. rnd e (n + k))\<rparr>"

subsection \<open>class Particle\<close>

text \<open>Particles are not game objects in the source; the class is placed first so that the
  unqualified field names \<open>x\<close>, \<open>y\<close>, \<open>active\<close> below are those of \<open>GameObject\<close>.\<close>

record Particle =
  x :: real
  y :: real
  velocityX :: real
  velocityY :: real
  life :: real
  maxLife :: real
  color :: string
  size_px :: real
  active :: bool

definition new_Particle ::
  "real \<Rightarrow> real \<Rightarrow> real \<Rightarrow> real \<Rightarrow> real \<Rightarrow> string \<Rightarrow> real \<Rightarrow> Particle" where
  "new_Particle px py vx vy lf col sz =
     \<lparr>Particle.x = px, Particle.y = py, Particle.velocityX = vx, Particle.velocityY = vy,
      life = lf, maxLife = lf, color = col, size_px = sz, Particle.active = True\<rparr>"

definition Particle_update :: "real \<Rightarrow> Particle \<Rightarrow> Particle" where
  "Particle_update dt q =
     (let q1 = q\<lparr>Particle.x := Particle.x q + Particle.velocityX q * (dt / 1000)\<rparr>;
          q2 = q1\<lparr>Particle.y := Particle.y q1 + Particle.velocityY q1 * (dt / 1000)\<rparr>;
          q3 = q2\<lparr>Particle.velocityY := Particle.velocityY q2 + GRAVITY * (dt / 1000)\<rparr>;
          q4 = q3\<lparr>life := life q3 - dt\<rparr>
      in if life q4 \<le> 0 then q4\<lparr>Particle.active := False\<rparr> else q4)"

subsection \<open>class GameObject\<close>

record GameObject =
  x :: real
  y :: real
  width :: real
  height :: real
  velocityX :: real
  velocityY :: real
  active :: bool

definition GameObject_update :: "real \<Rightarrow> 'a GameObject_scheme \<Rightarrow> 'a GameObject_scheme" where
  "GameObject_update dt ob =
     ob\<lparr>x := x ob + velocityX ob * (dt / 1000), y := y ob + velocityY ob * (dt / 1000)\<rparr>"

record Bounds =
  left :: real
  right :: real
  top :: real
  bottom :: real

definition getBounds :: "'a GameObject_scheme \<Rightarrow> Bounds" where
  "getBounds ob =
     \<lparr>left = x ob - width ob / 2, right = x ob + width ob / 2,
      top = y ob - height ob / 2, bottom = y ob + height ob / 2\<rparr>"

definition collidesWith :: "'a GameObject_scheme \<Rightarrow> 'b GameObject_scheme \<Rightarrow> bool" where
  "collidesWith this other =
     (let bounds1 = getBounds this; bounds2 = getBounds other
      in left bounds1 < right bounds2 \<and> right bounds1 > left bounds2 \<and>
         top bounds1 < bottom bounds2 \<and> bottom bounds1 > top bounds2)"

subsection \<open>class Player\<close>

record Player = GameObject +
  targetLane :: int
  currentLane :: int
  laneChangeProgress :: real
  power_lvl :: real
  maxPower :: real
  shieldActive :: bool
  shieldEndTime :: int
  score :: int

text \<open>The constructor; \<open>power_lvl\<close> is the source's field \<^verbatim>\<open>power\<close>.\<close>

definition new_Player :: "env \<Rightarrow> Player" where
  "new_Player e =
     \<lparr>x = CANVAS_WIDTH / 2, y = CANVAS_HEIGHT e - 100,
      width = PLAYER_WIDTH, height = PLAYER_HEIGHT,
      velocityX = 0, velocityY = 0, active = True,
      targetLane = 1, currentLane = 1, laneChangeProgress = 0,
      power_lvl = 100, maxPower = MAX_POWER,
      shieldActive = False, shieldEndTime = 0, score = 0\<rparr>"

definition Player_update :: "real \<Rightarrow> Player \<Rightarrow> env \<Rightarrow> Player \<times> env" where
  "Player_update dt p e =
     (let p1 = GameObject_update dt p;
          p2 = (if Player.laneChangeProgress p1 < 1
                then (let q = p1\<lparr>Player.laneChangeProgress :=
                                   Player.laneChangeProgress p1 + dt / LANE_CHANGE_DURATION\<rparr>
                      in if Player.laneChangeProgress q \<ge> 1
                         then q\<lparr>Player.laneChangeProgress := 1,
                                currentLane := Player.targetLane q\<rparr>
                         else q)
                else p1);
          startX = LANES_at (currentLane p2);
          endX = LANES_at (Player.targetLane p2);
          p3 = p2\<lparr>x := startX + (endX - startX) * Player.laneChangeProgress p2\<rparr>;
          p4 = p3\<lparr>y := CANVAS_HEIGHT e - 100\<rparr>;
          p5 = p4\<lparr>power_lvl := max 0 (power_lvl p4 - (POWER_DECAY_RATE * dt / 1000))\<rparr>
      in if shieldActive p5
         then (let (now, e1) = Date_now e
               in (if now > shieldEndTime p5 then p5\<lparr>shieldActive := False\<rparr> else p5, e1))
         else (p5, e))"

definition changeLane :: "int \<Rightarrow> Player \<Rightarrow> Player" where
  "changeLane direction p =
     (if Player.laneChangeProgress p < 1 then p
      else (let newLane = max 0 (min 2 (Player.targetLane p + direction))
            in if newLane \<noteq> Player.targetLane p
               then p\<lparr>Player.targetLane := newLane, Player.laneChangeProgress := 0\<rparr>
               else p))"

definition activateShield :: "Player \<Rightarrow> env \<Rightarrow> Player \<times> env" where
  "activateShield p e =
     (let (now, e1) = Date_now e
      in (p\<lparr>shieldActive := True, shieldEndTime := now + SHIELD_DURATION\<rparr>, e1))"

definition takeDamage :: "real \<Rightarrow> Player \<Rightarrow> Player" where
  "takeDamage amount p =
     (if \<not> shieldActive p then p\<lparr>power_lvl := max 0 (power_lvl p - amount)\<rparr> else p)"

subsection \<open>class NPC\<close>

record NPC = GameObject +
  lane :: int
  wobbleOffset :: real
  wobbleSpeed :: real
  originalX :: real
  carType :: string
  carColor :: string
  carWidth :: real
  carHeight :: real
  forwardMovement :: bool
  forwardSpeed :: real
  forwardDirection :: int
  forwardTimer :: real
  forwardDuration :: real
  laneChangeTimer :: real
  laneChangeInterval :: real
  targetLane :: int
  laneChangeProgress :: real
  laneChangeSpeed :: real
  avoidanceDirection :: int
  avoidanceSpeed :: real
  maxAvoidanceSpeed :: real
  avoidanceDistance :: real
  isAvoiding :: bool
  avoidanceOffset :: real

text \<open>The table \<^verbatim>\<open>carTypes\<close> of the constructor: type, width, height, colour.\<close>

definition carTypes :: "(string \<times> real \<times> real \<times> string) list" where
  "carTypes =
     [(''saloon'', 85, 125, ''#3498db''),
      (''suv'', 95, 140, ''#e74c3c''),
      (''hatchback'', 75, 110, ''#2ecc71''),
      (''sports'', 80, 120, ''#f39c12''),
      (''truck'', 100, 150, ''#9b59b6''),
      (''compact'', 70, 100, ''#1abc9c'')]"

text \<open>
  \<^verbatim>\<open>new NPC(lane)\<close> calls \<^verbatim>\<open>Math.random()\<close> eleven times, in this order: car type, speed,
  wobble phase, wobble speed, forward movement, forward speed, forward direction, forward
  duration, lane-change interval, lane-change speed, avoidance direction. The index
  \<^verbatim>\<open>Math.floor(Math.random() * carTypes.length)\<close> is within the table for every draw in [0, 1).
\<close>

definition new_NPC :: "int \<Rightarrow> env \<Rightarrow> NPC \<times> env" where
  "new_NPC li e =
     (let r = rnd e;
          selectedCar = carTypes ! nat \<lfloor>r 0 * real (length carTypes)\<rfloor>;
          (ctype, cwidth, cheight, ccolor) = selectedCar
      in (\<lparr>x = LANES_at li, y = - 100, width = cwidth, height = cheight,
           velocityX = 0, velocityY = NPC_SPEED + (r 1 - 0.5) * 50, active = True,
           lane = li,
           wobbleOffset = r 2 * pi * 2,
           wobbleSpeed = 0.02 + r 3 * 0.03,
           originalX = LANES_at li,
           carType = ctype, carColor = ccolor, carWidth = cwidth, carHeight = cheight,
           forwardMovement = (r 4 > 0.9),
           forwardSpeed = 15 + r 5 * 25,
           forwardDirection = (if r 6 > 0.5 then 1 else - 1),
           forwardTimer = 0,
           forwardDuration = 1500 + r 7 * 2000,
           laneChangeTimer = 0,
           laneChangeInterval = 8000 + r 8 * 12000,
           targetLane = li,
           laneChangeProgress = 0,
           laneChangeSpeed = 0.002 + r 9 * 0.003,
           avoidanceDirection = (if r 10 > 0.5 then 1 else - 1),
           avoidanceSpeed = 0,
           maxAvoidanceSpeed = 100,
           avoidanceDistance = 150,
           isAvoiding = False,
           avoidanceOffset = 0\<rparr>,
          drop_rnd 11 e))"

definition updateForwardMovement :: "real \<Rightarrow> NPC \<Rightarrow> env \<Rightarrow> NPC \<times> env" where
  "updateForwardMovement dt n e =
     (if forwardMovement n
      then (let n1 = n\<lparr>forwardTimer := forwardTimer n + dt\<rparr>
            in if forwardTimer n1 > forwardDuration n1
               then (let r = rnd e
                     in (n1\<lparr>forwardMovement := (r 0 > 0.9),
                            forwardTimer := 0,
                            forwardDuration := 1500 + r 1 * 2000,
                            forwardDirection := (if r 2 > 0.5 then 1 else - 1)\<rparr>,
                         drop_rnd 3 e))
               else (n1, e))
      else (n, e))"

definition updateLaneChanging :: "real \<Rightarrow> NPC \<Rightarrow> env \<Rightarrow> NPC \<times> env" where
  "updateLaneChanging dt n e =
     (let n1 = n\<lparr>laneChangeTimer := laneChangeTimer n + dt\<rparr>;
          availableLanes = filter (\<lambda>l. l \<noteq> NPC.lane n1) [0, 1, 2];
          (n2, e2) =
            (if laneChangeTimer n1 > laneChangeInterval n1 \<and> length availableLanes > 0
             then (let r = rnd e
                   in (n1\<lparr>NPC.targetLane :=
                             availableLanes ! nat \<lfloor>r 0 * real (length availableLanes)\<rfloor>,
                           NPC.laneChangeProgress := 0,
                           laneChangeTimer := 0,
                           laneChangeInterval := 8000 + r 1 * 12000\<rparr>,
                       drop_rnd 2 e))
             else (n1, e));
          n3 = (if NPC.laneChangeProgress n2 < 1
                then (let q = n2\<lparr>NPC.laneChangeProgress :=
                                   NPC.laneChangeProgress n2 + laneChangeSpeed n2 * (dt / 16.67)\<rparr>
                      in if NPC.laneChangeProgress q \<ge> 1
                         then q\<lparr>NPC.laneChangeProgress := 1,
                                NPC.lane := NPC.targetLane q,
                                originalX := LANES_at (NPC.targetLane q)\<rparr>
                         else q)
                else n2)
      in (n3, e2))"

definition getLaneChangeOffset :: "NPC \<Rightarrow> real" where
  "getLaneChangeOffset n =
     (if NPC.laneChangeProgress n < 1
      then (let startX = LANES_at (NPC.lane n); endX = LANES_at (NPC.targetLane n)
            in (endX - startX) * NPC.laneChangeProgress n)
      else 0)"

text \<open>
  The avoidance block of \<^verbatim>\<open>NPC.update\<close> (the body of \<^verbatim>\<open>if (player)\<close>; the driver always
  passes the player).
\<close>

definition avoidance_triggered :: "NPC \<Rightarrow> Player \<Rightarrow> bool" where
  "avoidance_triggered n p =
     (\<bar>y n - y p\<bar> < avoidanceDistance n \<and> \<bar>x n - x p\<bar> < 80)"

definition avoid :: "real \<Rightarrow> Player \<Rightarrow> NPC \<Rightarrow> NPC" where
  "avoid dt p n =
     (let distanceToPlayer = \<bar>y n - y p\<bar>
      in if avoidance_triggered n p
         then (let avoidanceForce =
                     max 0 ((avoidanceDistance n - distanceToPlayer) / avoidanceDistance n);
                   n1 = n\<lparr>isAvoiding := True,
                          avoidanceSpeed := maxAvoidanceSpeed n * avoidanceForce\<rparr>;
                   n2 = n1\<lparr>avoidanceDirection := (if x p < x n1 then 1 else - 1)\<rparr>;
                   n3 = n2\<lparr>avoidanceOffset :=
                            avoidanceOffset n2 +
                            real_of_int (avoidanceDirection n2) * avoidanceSpeed n2 * (dt / 1000)\<rparr>
               in n3\<lparr>avoidanceOffset := max (- 60) (min 60 (avoidanceOffset n3))\<rparr>)
         else n\<lparr>isAvoiding := False, avoidanceOffset := avoidanceOffset n * 0.9\<rparr>)"

definition NPC_update :: "real \<Rightarrow> Player \<Rightarrow> NPC \<Rightarrow> env \<Rightarrow> NPC \<times> env" where
  "NPC_update dt p n e =
     (let n1 = GameObject_update dt n;
          (n2, e2) = updateForwardMovement dt n1 e;
          (n3, e3) = updateLaneChanging dt n2 e2;
          n4 = avoid dt p n3;
          wobble = sin (wobbleOffset n4) * 3;
          laneChangeOffset = getLaneChangeOffset n4;
          n5 = n4\<lparr>x := originalX n4 + wobble + avoidanceOffset n4 + laneChangeOffset\<rparr>;
          n6 = n5\<lparr>wobbleOffset := wobbleOffset n5 + wobbleSpeed n5 * (dt / 16.67)\<rparr>
      in (if y n6 > CANVAS_HEIGHT e3 + 100 then n6\<lparr>active := False\<rparr> else n6, e3))"

subsection \<open>class Coin\<close>

record Coin = GameObject +
  lane :: int
  collected :: bool
  collectTime :: int
  bobOffset :: real
  bobSpeed :: real
  originalX :: real

definition new_Coin :: "int \<Rightarrow> env \<Rightarrow> Coin \<times> env" where
  "new_Coin li e =
     (let r = rnd e
      in (\<lparr>x = LANES_at li, y = - 50, width = COIN_SIZE, height = COIN_SIZE,
           velocityX = 0, velocityY = NPC_SPEED + (r 0 - 0.5) * 30, active = True,
           Coin.lane = li, collected = False, collectTime = 0,
           bobOffset = r 1 * pi * 2,
           bobSpeed = 0.03 + r 2 * 0.02,
           Coin.originalX = LANES_at li\<rparr>,
          drop_rnd 3 e))"

definition Coin_update :: "real \<Rightarrow> Coin \<Rightarrow> env \<Rightarrow> Coin \<times> env" where
  "Coin_update dt c e =
     (let c1 = GameObject_update dt c;
          bob = sin (bobOffset c1) * 2;
          c2 = c1\<lparr>x := Coin.originalX c1 + bob\<rparr>;
          c3 = c2\<lparr>bobOffset := bobOffset c2 + bobSpeed c2 * (dt / 16.67)\<rparr>;
          c4 = (if y c3 > CANVAS_HEIGHT e + 100 then c3\<lparr>active := False\<rparr> else c3)
      in if Coin.collected c4
         then (let (now, e1) = Date_now e
               in (if now > collectTime c4 then c4\<lparr>Coin.collected := False\<rparr> else c4, e1))
         else (c4, e))"

text \<open>\<^verbatim>\<open>collect()\<close>: the returned flag and the coin after the call.\<close>

definition collect :: "Coin \<Rightarrow> bool \<times> Coin" where
  "collect c =
     (if \<not> Coin.collected c then (True, c\<lparr>Coin.collected := True, active := False\<rparr>)
      else (False, c))"

subsection \<open>class Powerup\<close>

record Powerup = GameObject +
  lane :: int
  ptype :: string
  collected :: bool

definition new_Powerup :: "int \<Rightarrow> Powerup" where
  "new_Powerup li =
     \<lparr>x = LANES_at li, y = - 50, width = 30, height = 30,
      velocityX = 0, velocityY = NPC_SPEED, active = True,
      Powerup.lane = li, ptype = ''shield'', Powerup.collected = False\<rparr>"

definition Powerup_update :: "real \<Rightarrow> Powerup \<Rightarrow> env \<Rightarrow> Powerup" where
  "Powerup_update dt u e =
     (let u1 = GameObject_update dt u
      in if y u1 > CANVAS_HEIGHT e + 100 then u1\<lparr>active := False\<rparr> else u1)"

subsection \<open>class Hazard\<close>

record Hazard = GameObject +
  lane :: int
  htype :: string
  blinkState :: int

definition new_Hazard :: "int \<Rightarrow> string \<Rightarrow> Hazard" where
  "new_Hazard li ty =
     \<lparr>x = LANES_at li, y = - 50, width = 30, height = 24,
      velocityX = 0, velocityY = NPC_SPEED, active = True,
      Hazard.lane = li, htype = ty, blinkState = 0\<rparr>"

definition Hazard_update :: "real \<Rightarrow> Hazard \<Rightarrow> env \<Rightarrow> Hazard" where
  "Hazard_update dt h e =
     (let h1 = GameObject_update dt h;
          h2 = (if y h1 > CANVAS_HEIGHT e + 100 then h1\<lparr>active := False\<rparr> else h1)
      in if htype h2 = ''hazard_light''
         then h2\<lparr>blinkState := (blinkState h2 + 1) mod 60\<rparr>
         else h2)"

subsection \<open>class GameManager\<close>

text \<open>
  The fields of the manager that the game logic reads or writes. Canvas, images, audio
  and drag bookkeeping are left to the renderer and the input plumbing. \<open>console\<close> is
  the sequence of \<^verbatim>\<open>console.log\<close> messages written by \<^verbatim>\<open>startGame\<close> and
  \<^verbatim>\<open>updateSpeedProgression\<close>, oldest first (the messages of the constructor and of the
  image loader are not recorded).
\<close>

record GameManager =
  gameState :: GAME_STATE
  isGameLoopRunning :: bool
  player :: Player
  npcs :: "NPC list"
  coins :: "Coin list"
  powerups :: "Powerup list"
  hazards :: "Hazard list"
  particles :: "Particle list"
  gameTime :: real
  lastSpawnTime :: int
  lastCoinSpawnTime :: int
  lastPowerupSpawnTime :: int
  lastHazardSpawnTime :: int
  burstStreak :: int
  lastBurstTime :: int
  roadOffset :: real
  roadSpeed :: real
  currentSpeedMultiplier :: real
  speedIncreaseApplied20s :: bool
  speedIncreaseApplied40s :: bool
  keys :: "string \<Rightarrow> bool"
  console :: "string list"

text \<open>
  \<^verbatim>\<open>xs.forEach(cb)\<close> where the callback mutates the element and some state around it:
  the elements are visited in order, the state is threaded through.
\<close>

fun forEach :: "('a \<Rightarrow> 's \<Rightarrow> 'a \<times> 's) \<Rightarrow> 'a list \<Rightarrow> 's \<Rightarrow> 'a list \<times> 's" where
  "forEach cb [] s = ([], s)"
| "forEach cb (a # as) s =
     (let (a1, s1) = cb a s; (as1, s2) = forEach cb as s1 in (a1 # as1, s2))"

definition new_GameManager :: "env \<Rightarrow> GameManager" where
  "new_GameManager e =
     \<lparr>gameState = SPLASH, isGameLoopRunning = False, player = new_Player e,
      npcs = [], coins = [], powerups = [], hazards = [], particles = [],
      gameTime = GAME_DURATION,
      lastSpawnTime = 0, lastCoinSpawnTime = 0, lastPowerupSpawnTime = 0,
      lastHazardSpawnTime = 0, burstStreak = 0, lastBurstTime = 0,
      roadOffset = 0, roadSpeed = 8,
      currentSpeedMultiplier = 1.0,
      speedIncreaseApplied20s = False, speedIncreaseApplied40s = False,
      keys = (\<lambda>_. False),
      console = []\<rparr>"

definition resetGame :: "GameManager \<Rightarrow> env \<Rightarrow> GameManager" where
  "resetGame g e =
     g\<lparr>player := new_Player e,
       npcs := [], coins := [], powerups := [], hazards := [], particles := [],
       gameTime := GAME_DURATION,
       lastSpawnTime := 0, lastCoinSpawnTime := 0, lastPowerupSpawnTime := 0,
       lastHazardSpawnTime := 0, burstStreak := 0, lastBurstTime := 0,
       roadOffset := 0,
       currentSpeedMultiplier := 1.0,
       speedIncreaseApplied20s := False, speedIncreaseApplied40s := False\<rparr>"

definition startGameLoop :: "GameManager \<Rightarrow> GameManager" where
  "startGameLoop g = (if isGameLoopRunning g then g else g\<lparr>isGameLoopRunning := True\<rparr>)"

definition stopGameLoop :: "GameManager \<Rightarrow> GameManager" where
  "stopGameLoop g = g\<lparr>isGameLoopRunning := False\<rparr>"

text \<open>\<^verbatim>\<open>startGame()\<close> up to the timer it sets, and the timer's callback 500 ms later.\<close>

definition startGame :: "GameManager \<Rightarrow> GameManager" where
  "startGame g =
     g\<lparr>console := console g @ [''GameManager: Starting game...''], gameState := LOADING\<rparr>"

definition startGame_loaded :: "GameManager \<Rightarrow> env \<Rightarrow> GameManager" where
  "startGame_loaded g e =
     (let g1 = g\<lparr>console := console g @ [''GameManager: Loading complete, starting game loop...''],
                 gameState := PLAYING\<rparr>
      in startGameLoop (resetGame g1 e))"

definition endGame :: "GameManager \<Rightarrow> GameManager" where
  "endGame g = stopGameLoop (g\<lparr>gameState := GAME_OVER\<rparr>)"

definition updateSpeedProgression :: "GameManager \<Rightarrow> GameManager" where
  "updateSpeedProgression g =
     (let timeElapsed = (GAME_DURATION - gameTime g) / 1000;
          g1 = (if timeElapsed \<ge> 20 \<and> \<not> speedIncreaseApplied20s g
                then g\<lparr>currentSpeedMultiplier := SPEED_INCREASE_20S,
                       speedIncreaseApplied20s := True,
                       console := console g @ [''Speed increased by 10% at 20 seconds'']\<rparr>
                else g)
      in if timeElapsed \<ge> 40 \<and> \<not> speedIncreaseApplied40s g1
         then g1\<lparr>currentSpeedMultiplier := SPEED_INCREASE_40S,
                 speedIncreaseApplied40s := True,
                 console := console g1 @ [''Speed increased by 20% at 40 seconds'']\<rparr>
         else g1)"

definition handleInput :: "GameManager \<Rightarrow> GameManager" where
  "handleInput g =
     (let g1 = (if keys g ''ArrowLeft'' \<or> keys g ''KeyA''
                then g\<lparr>player := changeLane (- 1) (player g)\<rparr> else g)
      in if keys g1 ''ArrowRight'' \<or> keys g1 ''KeyD''
         then g1\<lparr>player := changeLane 1 (player g1)\<rparr> else g1)"

subsection \<open>GameManager.spawnObjects\<close>

text \<open>
  The loop over the existing NPCs: \<open>hasSpace\<close> becomes false, and the loop stops, at the
  first NPC closer than \<open>minDistance\<close> to the spawn position; until then the NPCs near
  the proposed lane are counted.
\<close>

fun spacing_loop :: "real \<Rightarrow> real \<Rightarrow> real \<Rightarrow> NPC list \<Rightarrow> bool \<times> nat \<Rightarrow> bool \<times> nat" where
  "spacing_loop minDistance proposedY laneX [] (hasSpace, npcsInLane) = (hasSpace, npcsInLane)"
| "spacing_loop minDistance proposedY laneX (existingNpc # rest) (hasSpace, npcsInLane) =
     (if \<bar>y existingNpc - proposedY\<bar> < minDistance then (False, npcsInLane)
      else spacing_loop minDistance proposedY laneX rest
             (hasSpace, if \<bar>x existingNpc - laneX\<bar> < 50 then npcsInLane + 1 else npcsInLane))"

definition spawnNPC :: "int \<Rightarrow> GameManager \<Rightarrow> env \<Rightarrow> GameManager \<times> env" where
  "spawnNPC currentTime g e =
     (if currentTime - lastSpawnTime g > NPC_SPAWN_INTERVAL \<and> length (npcs g) < MAX_NPCS
      then (let minDistance = 200;
                (r, e1) = Math_random e;
                proposedLane = \<lfloor>r * real (length LANES)\<rfloor>;
                proposedY = - 100;
                (hasSpace, npcsInLane) =
                  spacing_loop minDistance proposedY (LANES_at proposedLane) (npcs g) (True, 0)
            in if hasSpace \<and> npcsInLane < 2
               then (let (npc, e2) = new_NPC proposedLane e1;
                         npc1 = npc\<lparr>velocityY := velocityY npc * currentSpeedMultiplier g\<rparr>
                     in (g\<lparr>npcs := npcs g @ [npc1], lastSpawnTime := currentTime\<rparr>, e2))
               else (g, e1))
      else (g, e))"

definition spawnCoin :: "int \<Rightarrow> GameManager \<Rightarrow> env \<Rightarrow> GameManager \<times> env" where
  "spawnCoin currentTime g e =
     (if currentTime - lastCoinSpawnTime g > COIN_SPAWN_INTERVAL \<and> length (coins g) < MAX_COINS
      then (let (r, e1) = Math_random e
            in if r < COIN_SPAWN_CHANCE
               then (let (r1, e2) = Math_random e1;
                         li = \<lfloor>r1 * real (length LANES)\<rfloor>;
                         (coin, e3) = new_Coin li e2;
                         coin1 = coin\<lparr>velocityY := velocityY coin * currentSpeedMultiplier g\<rparr>
                     in (g\<lparr>coins := coins g @ [coin1], lastCoinSpawnTime := currentTime\<rparr>, e3))
               else (g, e1))
      else (g, e))"

definition spawnPowerup :: "int \<Rightarrow> GameManager \<Rightarrow> env \<Rightarrow> GameManager \<times> env" where
  "spawnPowerup currentTime g e =
     (if currentTime - lastPowerupSpawnTime g > 1000 \<and> length (powerups g) < MAX_POWERUPS
      then (let (r, e1) = Math_random e
            in if r < POWERUP_SPAWN_CHANCE
               then (let (r1, e2) = Math_random e1;
                         li = \<lfloor>r1 * real (length LANES)\<rfloor>;
                         powerup = new_Powerup li;
                         powerup1 = powerup\<lparr>velocityY := velocityY powerup * currentSpeedMultiplier g\<rparr>
                     in (g\<lparr>powerups := powerups g @ [powerup1],
                           lastPowerupSpawnTime := currentTime\<rparr>, e2))
               else (g, e1))
      else (g, e))"

definition hazard_types :: "string list" where
  "hazard_types = [''hazard_light'', ''road_work'', ''camel_crossing'']"

definition spawnHazard :: "int \<Rightarrow> GameManager \<Rightarrow> env \<Rightarrow> GameManager \<times> env" where
  "spawnHazard currentTime g e =
     (if currentTime - lastHazardSpawnTime g > 1500 \<and> length (hazards g) < MAX_HAZARDS
      then (let (r, e1) = Math_random e
            in if r < HAZARD_SPAWN_CHANCE
               then (let (r1, e2) = Math_random e1;
                         li = \<lfloor>r1 * real (length LANES)\<rfloor>;
                         (r2, e3) = Math_random e2;
                         ty = hazard_types ! nat \<lfloor>r2 * real (length hazard_types)\<rfloor>;
                         hazard = new_Hazard li ty;
                         hazard1 = hazard\<lparr>velocityY := velocityY hazard * currentSpeedMultiplier g\<rparr>
                     in (g\<lparr>hazards := hazards g @ [hazard1],
                           lastHazardSpawnTime := currentTime\<rparr>, e3))
               else (g, e1))
      else (g, e))"

definition spawnObjects :: "real \<Rightarrow> GameManager \<Rightarrow> env \<Rightarrow> GameManager \<times> env" where
  "spawnObjects dt g e =
     (let (currentTime, e0) = Date_now e;
          (g1, e1) = spawnNPC currentTime g e0;
          (g2, e2) = spawnCoin currentTime g1 e1;
          (g3, e3) = spawnPowerup currentTime g2 e2
      in spawnHazard currentTime g3 e3)"

subsection \<open>GameManager.updateObjects and updateParticles\<close>

definition updateObjects :: "real \<Rightarrow> GameManager \<Rightarrow> env \<Rightarrow> GameManager \<times> env" where
  "updateObjects dt g e =
     (let (ns, e1) = forEach (NPC_update dt (player g)) (npcs g) e;
          g1 = g\<lparr>npcs := filter active ns\<rparr>;
          (cs, e2) = forEach (Coin_update dt) (coins g1) e1;
          g2 = g1\<lparr>coins := filter active cs\<rparr>;
          us = map (\<lambda>u. Powerup_update dt u e2) (powerups g2);
          g3 = g2\<lparr>powerups := filter active us\<rparr>;
          hs = map (\<lambda>h. Hazard_update dt h e2) (hazards g3)
      in (g3\<lparr>hazards := filter active hs\<rparr>, e2))"

definition updateParticles :: "real \<Rightarrow> GameManager \<Rightarrow> GameManager" where
  "updateParticles dt g =
     g\<lparr>particles := filter Particle.active (map (Particle_update dt) (particles g))\<rparr>"

subsection \<open>Particle bursts\<close>

definition burst_colors :: "string list" where
  "burst_colors = [''#0066cc'', ''#4ecdc4'', ''#ffffff'', ''#ffd700'', ''#ff6b35'']"

text \<open>
  The particles pushed by the loop of \<^verbatim>\<open>createCoinBurst\<close>; iteration \<open>i\<close> draws speed,
  colour and size.
\<close>

definition coin_burst_particles :: "real \<Rightarrow> real \<Rightarrow> env \<Rightarrow> Particle list" where
  "coin_burst_particles px py e =
     (let r = rnd e;
          mk = (\<lambda>i. let angle = (pi * 2 * real i) / real COIN_BURST_PARTICLES;
                         speed = 12 + r (3 * i) * 8;
                         vx = cos angle * speed;
                         vy = sin angle * speed - 5;
                         col = burst_colors ! nat \<lfloor>r (3 * i + 1) * real (length burst_colors)\<rfloor>;
                         sz = r (3 * i + 2) * 4 + 2
                     in new_Particle px py vx vy 1200 col sz)
      in map mk [0..<COIN_BURST_PARTICLES])"

definition createCoinBurst :: "real \<Rightarrow> real \<Rightarrow> GameManager \<Rightarrow> env \<Rightarrow> GameManager \<times> env" where
  "createCoinBurst px py g e =
     (g\<lparr>particles := particles g @ coin_burst_particles px py e\<rparr>,
      drop_rnd (3 * COIN_BURST_PARTICLES) e)"

definition explosion_colors :: "string list" where
  "explosion_colors = [''#ff6b35'', ''#ffd700'', ''#ffffff'', ''#ff4757'']"

text \<open>
  The particles pushed by the loop of \<^verbatim>\<open>createExplosion\<close>; iteration \<open>i\<close> draws angle,
  speed, colour and size.
\<close>

definition explosion_particles :: "real \<Rightarrow> real \<Rightarrow> env \<Rightarrow> Particle list" where
  "explosion_particles px py e =
     (let r = rnd e;
          mk = (\<lambda>i. let angle = r (4 * i) * pi * 2;
                         speed = 8 + r (4 * i + 1) * 12;
                         vx = cos angle * speed;
                         vy = sin angle * speed;
                         col = explosion_colors ! nat \<lfloor>r (4 * i + 2) * real (length explosion_colors)\<rfloor>;
                         sz = r (4 * i + 3) * 6 + 3
                     in new_Particle px py vx vy 800 col sz)
      in map mk [0..<15])"

definition createExplosion :: "real \<Rightarrow> real \<Rightarrow> GameManager \<Rightarrow> env \<Rightarrow> GameManager \<times> env" where
  "createExplosion px py g e =
     (g\<lparr>particles := particles g @ explosion_particles px py e\<rparr>, drop_rnd (4 * 15) e)"

subsection \<open>GameManager.checkCollisions\<close>

text \<open>
  The four \<^verbatim>\<open>forEach\<close> callbacks, in the order of the source. Each takes the element and
  the manager with the environment, and returns them as the callback leaves them. Sound
  and snackbar calls touch only the audio context and the DOM.
\<close>

fun coin_collision :: "Coin \<Rightarrow> GameManager \<times> env \<Rightarrow> Coin \<times> (GameManager \<times> env)" where
  "coin_collision coin (g, e) =
     (if collidesWith (player g) coin
      then (let (collected_now, coin1) = collect coin
            in if collected_now
               then (let (g1, e1) = createCoinBurst (x coin1) (y coin1) g e;
                         g2 = g1\<lparr>player := (player g1)\<lparr>score := score (player g1) + 10\<rparr>\<rparr>;
                         (now, e2) = Date_now e1;
                         g3 = (if now - lastBurstTime g2 < 500
                               then g2\<lparr>burstStreak := burstStreak g2 + 1\<rparr>
                               else g2\<lparr>burstStreak := 1\<rparr>)
                     in (coin1, (g3\<lparr>lastBurstTime := now\<rparr>, e2)))
               else (coin1, (g, e)))
      else (coin, (g, e)))"

fun powerup_collision :: "Powerup \<Rightarrow> GameManager \<times> env \<Rightarrow> Powerup \<times> (GameManager \<times> env)" where
  "powerup_collision powerup (g, e) =
     (if collidesWith (player g) powerup
      then (let (g1, e1) =
                  (if ptype powerup = ''shield''
                   then (let (p1, e') = activateShield (player g) e in (g\<lparr>player := p1\<rparr>, e'))
                   else (g, e));
                (g2, e2) = createExplosion (x powerup) (y powerup) g1 e1
            in (powerup\<lparr>active := False\<rparr>, (g2, e2)))
      else (powerup, (g, e)))"

fun npc_collision :: "NPC \<Rightarrow> GameManager \<times> env \<Rightarrow> NPC \<times> (GameManager \<times> env)" where
  "npc_collision npc (g, e) =
     (if collidesWith (player g) npc
      then (let g1 = g\<lparr>player := takeDamage 10 (player g)\<rparr>;
                (g2, e2) = createExplosion (x npc) (y npc) g1 e;
                npc1 = npc\<lparr>avoidanceOffset :=
                             avoidanceOffset npc + real_of_int (avoidanceDirection npc) * 30\<rparr>;
                npc2 = npc1\<lparr>avoidanceOffset := max (- 80) (min 80 (avoidanceOffset npc1))\<rparr>
            in (npc2, (if power_lvl (player g2) \<le> 0 then endGame g2 else g2, e2)))
      else (npc, (g, e)))"

fun hazard_collision :: "Hazard \<Rightarrow> GameManager \<times> env \<Rightarrow> Hazard \<times> (GameManager \<times> env)" where
  "hazard_collision hazard (g, e) =
     (if collidesWith (player g) hazard
      then (let g1 = g\<lparr>player := takeDamage 15 (player g)\<rparr>;
                (g2, e2) = createExplosion (x hazard) (y hazard) g1 e
            in (hazard\<lparr>active := False\<rparr>,
                (if power_lvl (player g2) \<le> 0 then endGame g2 else g2, e2)))
      else (hazard, (g, e)))"

definition checkCollisions :: "GameManager \<Rightarrow> env \<Rightarrow> GameManager \<times> env" where
  "checkCollisions g e =
     (let (cs, (g1, e1)) = forEach coin_collision (coins g) (g, e);
          g1' = g1\<lparr>coins := cs\<rparr>;
          (us, (g2, e2)) = forEach powerup_collision (powerups g1') (g1', e1);
          g2' = g2\<lparr>powerups := us\<rparr>;
          (ns, (g3, e3)) = forEach npc_collision (npcs g2') (g2', e2);
          g3' = g3\<lparr>npcs := ns\<rparr>;
          (hs, (g4, e4)) = forEach hazard_collision (hazards g3') (g3', e3)
      in (g4\<lparr>hazards := hs\<rparr>, e4))"

subsection \<open>GameManager.update and the frame callback\<close>

definition update :: "real \<Rightarrow> GameManager \<Rightarrow> env \<Rightarrow> GameManager \<times> env" where
  "update dt g e =
     (if gameState g \<noteq> PLAYING then (g, e)
      else (let g1 = g\<lparr>gameTime := gameTime g - dt\<rparr>
            in if gameTime g1 \<le> 0 then (endGame g1, e)
               else (let g2 = updateSpeedProgression g1;
                         g3 = g2\<lparr>roadOffset := roadOffset g2 - roadSpeed g2 * (dt / 16.67)\<rparr>;
                         g4 = (if roadOffset g3 < 0 then g3\<lparr>roadOffset := 40\<rparr> else g3);
                         g5 = handleInput g4;
                         (p, e1) = Player_update dt (player g5) e;
                         g6 = g5\<lparr>player := p\<rparr>;
                         (g7, e2) = spawnObjects dt g6 e1;
                         (g8, e3) = updateObjects dt g7 e2;
                         (g9, e4) = checkCollisions g8 e3
                     in (updateParticles dt g9, e4))))"

text \<open>
  The callback \<^verbatim>\<open>gameLoop\<close> of \<^verbatim>\<open>startGameLoop\<close>: a frame whose loop has been stopped
  returns at once; otherwise it updates with the time since the previous frame (rendering
  reads the state and does not change it).
\<close>

definition gameLoop :: "real \<Rightarrow> GameManager \<Rightarrow> env \<Rightarrow> GameManager \<times> env" where
  "gameLoop dt g e = (if \<not> isGameLoopRunning g then (g, e) else update dt g e)"

text \<open>A frame takes its own environment: the draws and clock readings made during it.\<close>

fun run_frames :: "(real \<times> env) list \<Rightarrow> GameManager \<Rightarrow> GameManager" where
  "run_frames [] g = g"
| "run_frames ((dt, e) # fs) g = run_frames fs (fst (gameLoop dt g e))"

subsection \<open>Input events between frames\<close>

definition keydown :: "string \<Rightarrow> GameManager \<Rightarrow> GameManager" where
  "keydown code g = g\<lparr>keys := (keys g)(code := True)\<rparr>"

definition keyup :: "string \<Rightarrow> GameManager \<Rightarrow> GameManager" where
  "keyup code g = g\<lparr>keys := (keys g)(code := False)\<rparr>"

text \<open>
  The touch and mouse handlers find the lane \<open>i\<close> closest to the pointer and, while
  playing, ask for the lane change that leads there.
\<close>

definition pointer_to_lane :: "int \<Rightarrow> GameManager \<Rightarrow> GameManager" where
  "pointer_to_lane i g =
     (if gameState g = PLAYING \<and> i \<noteq> Player.targetLane (player g)
      then g\<lparr>player := changeLane (i - Player.targetLane (player g)) (player g)\<rparr>
      else g)"

section \<open>Derived notions\<close>

text \<open>\<^verbatim>\<open>Player.update\<close> called once per frame over a sequence of frame times.\<close>

fun Player_updates :: "real list \<Rightarrow> Player \<Rightarrow> env \<Rightarrow> Player \<times> env" where
  "Player_updates [] p e = (p, e)"
| "Player_updates (dt # dts) p e =
     (let (p1, e1) = Player_update dt p e in Player_updates dts p1 e1)"

text \<open>
  The statements of \<^verbatim>\<open>update\<close> between the timer check and \<^verbatim>\<open>this.player.update(dt)\<close>:
  speed progression, road animation, keyboard input.
\<close>

definition before_player :: "real \<Rightarrow> GameManager \<Rightarrow> GameManager" where
  "before_player dt g =
     (let g1 = g\<lparr>gameTime := gameTime g - dt\<rparr>;
          g2 = updateSpeedProgression g1;
          g3 = g2\<lparr>roadOffset := roadOffset g2 - roadSpeed g2 * (dt / 16.67)\<rparr>;
          g4 = (if roadOffset g3 < 0 then g3\<lparr>roadOffset := 40\<rparr> else g3)
      in handleInput g4)"

text \<open>The position and extent of the player, which is all that \<^verbatim>\<open>collidesWith\<close> reads of it.\<close>

definition same_box :: "Player \<Rightarrow> Player \<Rightarrow> bool" where
  "same_box p q = (x q = x p \<and> y q = y p \<and> width q = width p \<and> height q = height p)"

text \<open>
  What no collision callback writes: the collections themselves (a callback changes only
  the element it is given), the player's box, the session clock, the spawn timers and the
  speed progression.
\<close>

definition kept_by_collisions :: "GameManager \<Rightarrow> GameManager \<Rightarrow> bool" where
  "kept_by_collisions g g' =
     (same_box (player g) (player g') \<and> npcs g' = npcs g \<and> coins g' = coins g \<and>
      powerups g' = powerups g \<and> hazards g' = hazards g \<and> gameTime g' = gameTime g \<and>
      lastSpawnTime g' = lastSpawnTime g \<and> lastCoinSpawnTime g' = lastCoinSpawnTime g \<and>
      lastPowerupSpawnTime g' = lastPowerupSpawnTime g \<and>
      lastHazardSpawnTime g' = lastHazardSpawnTime g \<and>
      currentSpeedMultiplier g' = currentSpeedMultiplier g \<and>
      speedIncreaseApplied20s g' = speedIncreaseApplied20s g \<and>
      speedIncreaseApplied40s g' = speedIncreaseApplied40s g \<and>
      console g' = console g)"

text \<open>What one pass of the collision resolver does to one element of each collection.\<close>

definition coin_after :: "Player \<Rightarrow> Coin \<Rightarrow> Coin" where
  "coin_after p c = (if collidesWith p c then snd (collect c) else c)"

definition powerup_after :: "Player \<Rightarrow> Powerup \<Rightarrow> Powerup" where
  "powerup_after p u = (if collidesWith p u then u\<lparr>active := False\<rparr> else u)"

definition npc_after :: "Player \<Rightarrow> NPC \<Rightarrow> NPC" where
  "npc_after p n =
     (if collidesWith p n
      then n\<lparr>avoidanceOffset :=
               max (- 80) (min 80 (avoidanceOffset n + real_of_int (avoidanceDirection n) * 30))\<rparr>
      else n)"

definition hazard_after :: "Player \<Rightarrow> Hazard \<Rightarrow> Hazard" where
  "hazard_after p h = (if collidesWith p h then h\<lparr>active := False\<rparr> else h)"

text \<open>
  What the steps of a frame after the speed progression leave alone: the session clock,
  the multiplier, its latches and the console. The game state either stays as it was,
  together with the loop flag, or has become \<open>GAME_OVER\<close> with the loop stopped.
\<close>

definition session_kept :: "GameManager \<Rightarrow> GameManager \<Rightarrow> bool" where
  "session_kept g g' =
     (gameTime g' = gameTime g \<and>
      currentSpeedMultiplier g' = currentSpeedMultiplier g \<and>
      speedIncreaseApplied20s g' = speedIncreaseApplied20s g \<and>
      speedIncreaseApplied40s g' = speedIncreaseApplied40s g \<and>
      console g' = console g \<and>
      ((gameState g' = GAME_OVER \<and> \<not> isGameLoopRunning g') \<or>
       (gameState g' = gameState g \<and> isGameLoopRunning g' = isGameLoopRunning g)))"

text \<open>
  The speed progression as the specification words it: with the elapsed session time
  after each frame, a threshold is reached once some frame ends at or beyond it.
\<close>

definition msg20 :: string where "msg20 = ''Speed increased by 10% at 20 seconds''"

definition msg40 :: string where "msg40 = ''Speed increased by 20% at 40 seconds''"

fun elapsed_times :: "real \<Rightarrow> real list \<Rightarrow> real list" where
  "elapsed_times acc [] = []"
| "elapsed_times acc (dt # dts) = (acc + dt) # elapsed_times (acc + dt) dts"

definition reached :: "real \<Rightarrow> real list \<Rightarrow> bool" where
  "reached secs dts = list_ex (\<lambda>t. secs \<le> t / 1000) (elapsed_times 0 dts)"

definition expected_multiplier :: "real list \<Rightarrow> real" where
  "expected_multiplier dts =
     (if reached 40 dts then SPEED_INCREASE_40S
      else if reached 20 dts then SPEED_INCREASE_20S else 1)"

definition expected_log :: "real list \<Rightarrow> string list" where
  "expected_log dts =
     (if reached 20 dts then [msg20] else []) @ (if reached 40 dts then [msg40] else [])"

text \<open>The avoidance offset of an NPC lies within \<open>b\<close> units of the lane centre.\<close>

definition offset_within :: "real \<Rightarrow> NPC \<Rightarrow> bool" where
  "offset_within b n = (- b \<le> avoidanceOffset n \<and> avoidanceOffset n \<le> b)"

text \<open>
  The NPC as \<^verbatim>\<open>NPC.update\<close> has it when it reaches the avoidance block: moved, with its
  forward movement and lane changing updated.
\<close>

definition before_avoid :: "real \<Rightarrow> NPC \<Rightarrow> env \<Rightarrow> NPC" where
  "before_avoid dt n e =
     (let n1 = GameObject_update dt n;
          (n2, e2) = updateForwardMovement dt n1 e
      in fst (updateLaneChanging dt n2 e2))"

text \<open>
  The manager and environment with which \<^verbatim>\<open>update\<close> calls \<^verbatim>\<open>spawnObjects\<close> in a frame
  that is played.
\<close>

definition spawn_input :: "real \<Rightarrow> GameManager \<Rightarrow> env \<Rightarrow> GameManager \<times> env" where
  "spawn_input dt g e =
     (let g5 = before_player dt g; (p, e1) = Player_update dt (player g5) e
      in (g5\<lparr>player := p\<rparr>, e1))"

text \<open>Spawning only appends to the collections.\<close>

definition appended :: "GameManager \<Rightarrow> GameManager \<Rightarrow> bool" where
  "appended g g' =
     ((\<exists>ns. npcs g' = npcs g @ ns) \<and> (\<exists>cs. coins g' = coins g @ cs) \<and>
      (\<exists>us. powerups g' = powerups g @ us) \<and> (\<exists>hs. hazards g' = hazards g @ hs))"

text \<open>
  The vertical velocities found in the collections of \<open>g'\<close> are, in order, velocities
  found in \<open>g\<close>, followed by those of elements that \<open>g\<close> did not have.
\<close>

definition velocities_kept :: "GameManager \<Rightarrow> GameManager \<Rightarrow> bool" where
  "velocities_kept g g' =
     ((\<exists>vs. subseq (map velocityY (npcs g')) (map velocityY (npcs g) @ vs)) \<and>
      (\<exists>vs. subseq (map velocityY (coins g')) (map velocityY (coins g) @ vs)) \<and>
      (\<exists>vs. subseq (map velocityY (powerups g')) (map velocityY (powerups g) @ vs)) \<and>
      (\<exists>vs. subseq (map velocityY (hazards g')) (map velocityY (hazards g) @ vs)))"

text \<open>
  The managers that the page can produce: constructed on load, started by the start or
  restart button, set playing by the timer that \<^verbatim>\<open>startGame\<close> sets, advanced by frames,
  and changed by keyboard and pointer events. The timer rule does not track that a start
  was requested, so the set is an upper bound, which is what an invariant needs.
\<close>

inductive reachable :: "GameManager \<Rightarrow> bool" where
  constructed: "reachable (new_GameManager e)"
| start_clicked: "reachable g \<Longrightarrow> reachable (startGame g)"
| loaded: "reachable g \<Longrightarrow> reachable (startGame_loaded g e)"
| frame: "reachable g \<Longrightarrow> reachable (fst (gameLoop dt g e))"
| key_down: "reachable g \<Longrightarrow> reachable (keydown code g)"
| key_up: "reachable g \<Longrightarrow> reachable (keyup code g)"
| pointer: "reachable g \<Longrightarrow> reachable (pointer_to_lane i g)"

section \<open>Concrete inputs\<close>

text \<open>
  An environment whose every draw is 1/2 and whose clock stands at \<open>t\<close>, on a canvas
  600 units high (the source's fallback height).
\<close>

definition env_half :: "int \<Rightarrow> env" where
  "env_half t = \<lparr>rnd = (\<lambda>_. 1 / 2), clk = (\<lambda>_. t), CANVAS_HEIGHT = 600\<rparr>"

text \<open>A freshly constructed player is mid-transition; one frame of 200 ms settles it.\<close>

definition player_settled :: Player where
  "player_settled = fst (Player_update 200 (new_Player (env_half 0)) (env_half 0))"

definition player_right :: Player where
  "player_right = fst (Player_update 200 (changeLane 1 player_settled) (env_half 0))"

definition player_left :: Player where
  "player_left = fst (Player_update 200 (changeLane (- 1) player_settled) (env_half 0))"

text \<open>
  A session as the page starts it: the manager is constructed, the start button is
  clicked and the loading timer fires.
\<close>

definition session_start :: GameManager where
  "session_start = startGame_loaded (startGame (new_GameManager (env_half 0))) (env_half 0)"

text \<open>
  The player settled in the middle lane with power \<open>pw\<close>, and the manager of a session
  under way: \<open>tm\<close> milliseconds left, the last NPC spawned at clock reading \<open>ls\<close>, the NPCs
  \<open>ns\<close> on the road and nothing else.
\<close>

definition player_at :: "real \<Rightarrow> Player" where
  "player_at pw =
     \<lparr>x = 200, y = 500, width = 80, height = 120, velocityX = 0, velocityY = 0,
      active = True, Player.targetLane = 1, currentLane = 1,
      Player.laneChangeProgress = 1, power_lvl = pw, maxPower = 120,
      shieldActive = False, shieldEndTime = 0, score = 0\<rparr>"

definition cruising :: "real \<Rightarrow> real \<Rightarrow> int \<Rightarrow> NPC list \<Rightarrow> GameManager" where
  "cruising tm pw ls ns =
     \<lparr>gameState = PLAYING, isGameLoopRunning = True, player = player_at pw,
      npcs = ns, coins = [], powerups = [], hazards = [], particles = [],
      gameTime = tm, lastSpawnTime = ls, lastCoinSpawnTime = 0, lastPowerupSpawnTime = 0,
      lastHazardSpawnTime = 0, burstStreak = 0, lastBurstTime = 0,
      roadOffset = 40, roadSpeed = 8, currentSpeedMultiplier = 1,
      speedIncreaseApplied20s = False, speedIncreaseApplied40s = False,
      keys = (\<lambda>_. False),
      console = [''GameManager: Starting game...'',
                 ''GameManager: Loading complete, starting game loop...'']\<rparr>"

text \<open>
  An NPC of the middle lane three seconds after its spawn, level with the player and
  pushed aside by one collision; an NPC of the right lane 2.75 seconds after its spawn.
\<close>

definition npc_hit :: NPC where
  "npc_hit =
     \<lparr>x = 140, y = 500, width = 80, height = 120, velocityX = 0, velocityY = 200,
      active = True, NPC.lane = 1, wobbleOffset = pi + 10500 / 1667, wobbleSpeed = 7 / 200,
      NPC.originalX = 200, carType = ''sports'', carColor = ''#f39c12'', carWidth = 80,
      carHeight = 120, forwardMovement = False, forwardSpeed = 55 / 2,
      forwardDirection = - 1, forwardTimer = 0, forwardDuration = 2500,
      laneChangeTimer = 3000, laneChangeInterval = 14000, NPC.targetLane = 1,
      NPC.laneChangeProgress = 1050 / 1667, laneChangeSpeed = 7 / 2000,
      avoidanceDirection = - 1, avoidanceSpeed = 100, maxAvoidanceSpeed = 100,
      avoidanceDistance = 150, isAvoiding = True, avoidanceOffset = - 80\<rparr>"

definition npc_side :: NPC where
  "npc_side =
     \<lparr>x = 300, y = 450, width = 80, height = 120, velocityX = 0, velocityY = 200,
      active = True, NPC.lane = 2, wobbleOffset = pi + 9625 / 1667, wobbleSpeed = 7 / 200,
      NPC.originalX = 300, carType = ''sports'', carColor = ''#f39c12'', carWidth = 80,
      carHeight = 120, forwardMovement = False, forwardSpeed = 55 / 2,
      forwardDirection = - 1, forwardTimer = 0, forwardDuration = 2500,
      laneChangeTimer = 2750, laneChangeInterval = 14000, NPC.targetLane = 2,
      NPC.laneChangeProgress = 1925 / 3334, laneChangeSpeed = 7 / 2000,
      avoidanceDirection = - 1, avoidanceSpeed = 0, maxAvoidanceSpeed = 100,
      avoidanceDistance = 150, isAvoiding = False, avoidanceOffset = 0\<rparr>"

text \<open>
  Draws for a frame that spawns an NPC in the right lane and a powerup in the middle lane
  (\<open>env_B1\<close>), and for a frame that spawns an NPC in the right lane and a hazard in the
  middle lane (\<open>env_B2\<close>). Draw 0 is the NPC's lane, draws 1 to 11 belong to its
  constructor, the next ones are the chance and lane draws of the other categories.
\<close>

definition env_B1 :: "int \<Rightarrow> env" where
  "env_B1 t = \<lparr>rnd = (\<lambda>n. if n = 0 then 9 / 10 else if n = 13 then 1 / 20 else 1 / 2),
               clk = (\<lambda>_. t), CANVAS_HEIGHT = 600\<rparr>"

definition env_B2 :: "int \<Rightarrow> env" where
  "env_B2 t = \<lparr>rnd = (\<lambda>n. if n = 0 then 9 / 10 else if n = 14 then 1 / 20 else 1 / 2),
               clk = (\<lambda>_. t), CANVAS_HEIGHT = 600\<rparr>"

text \<open>
  The session after the first of these frames (the powerup reached the player and gave
  the shield) and after the second (the hazard reached the shielded player).
\<close>

definition powerup_taken :: Powerup where
  "powerup_taken =
     \<lparr>x = 200, y = 500, width = 30, height = 30, velocityX = 0, velocityY = 200,
      active = False, Powerup.lane = 1, ptype = ''shield'', Powerup.collected = False\<rparr>"

definition shielded :: "real \<Rightarrow> Player" where
  "shielded pw = (player_at pw)\<lparr>shieldActive := True, shieldEndTime := 1700000008000\<rparr>"

definition after_pickup :: GameManager where
  "after_pickup =
     (cruising 57250 (389 / 4) 1700000000000 [npc_side])
       \<lparr>player := shielded (389 / 4), powerups := [powerup_taken],
        lastPowerupSpawnTime := 1700000000000\<rparr>"

definition hazard_hit :: Hazard where
  "hazard_hit =
     \<lparr>x = 200, y = 500, width = 30, height = 24, velocityX = 0, velocityY = 200,
      active = False, Hazard.lane = 1, htype = ''road_work'', blinkState = 0\<rparr>"

definition after_hazard :: GameManager where
  "after_hazard =
     (cruising 54500 (189 / 2) 1700000002750 [npc_side])
       \<lparr>player := shielded (189 / 2), hazards := [hazard_hit],
        lastPowerupSpawnTime := 1700000000000, lastHazardSpawnTime := 1700000002750\<rparr>"

text \<open>The manager after the 20 s and after the 40 s speed increase.\<close>

definition boosted20 :: "GameManager \<Rightarrow> GameManager" where
  "boosted20 g =
     g\<lparr>currentSpeedMultiplier := 11 / 10, speedIncreaseApplied20s := True,
       console := console g @ [msg20]\<rparr>"

definition boosted40 :: "GameManager \<Rightarrow> GameManager" where
  "boosted40 g =
     g\<lparr>currentSpeedMultiplier := 12 / 10, speedIncreaseApplied40s := True,
       console := console g @ [msg40]\<rparr>"

text \<open>
  Nine frames of one session, every draw 1/2, the clock advancing with the frames: five
  frames of 3 s in each of which a fresh NPC of the middle lane reaches the player, then
  frames of 10 s, 10 s, 10 s and 5 s in which every NPC leaves the screen as it spawns.
\<close>

definition frames_C :: "(real \<times> env) list" where
  "frames_C =
     [(3000, env_half 1700000000000), (3000, env_half 1700000003000),
      (3000, env_half 1700000006000), (3000, env_half 1700000009000),
      (3000, env_half 1700000012000), (10000, env_half 1700000022000),
      (10000, env_half 1700000032000), (10000, env_half 1700000042000),
      (5000, env_half 1700000047000)]"

section \<open>Lemmas on the embedding\<close>

lemmas player_eval =
  GAME_CONFIG LANES_at_def Date_now_def GameObject_update_def new_Player_def
  Player_update_def changeLane_def env_half_def

lemma player_settled_eq:
  "player_settled =
     \<lparr>x = 200, y = 500, width = 80, height = 120, velocityX = 0, velocityY = 0,
      active = True, Player.targetLane = 1, currentLane = 1,
      Player.laneChangeProgress = 1, power_lvl = 998 / 10, maxPower = 120,
      shieldActive = False, shieldEndTime = 0, score = 0\<rparr>"
  by (simp add: player_settled_def player_eval Let_def)

lemma player_right_eq:
  "player_right =
     \<lparr>x = 300, y = 500, width = 80, height = 120, velocityX = 0, velocityY = 0,
      active = True, Player.targetLane = 2, currentLane = 2,
      Player.laneChangeProgress = 1, power_lvl = 996 / 10, maxPower = 120,
      shieldActive = False, shieldEndTime = 0, score = 0\<rparr>"
  by (simp add: player_right_def player_settled_eq player_eval Let_def)

lemma player_left_eq:
  "player_left =
     \<lparr>x = 100, y = 500, width = 80, height = 120, velocityX = 0, velocityY = 0,
      active = True, Player.targetLane = 0, currentLane = 0,
      Player.laneChangeProgress = 1, power_lvl = 996 / 10, maxPower = 120,
      shieldActive = False, shieldEndTime = 0, score = 0\<rparr>"
  by (simp add: player_left_def player_settled_eq player_eval Let_def)

subsection \<open>Loops with callbacks\<close>

lemma forEach_length: "length (fst (forEach cb xs s)) = length xs"
  by (induction xs arbitrary: s) (auto simp: split_def Let_def)

lemma forEach_state_inv:
  assumes step: "\<And>a s. Q s \<Longrightarrow> Q (snd (cb a s))"
  shows "Q s \<Longrightarrow> Q (snd (forEach cb xs s))"
  by (induction xs arbitrary: s) (auto simp: split_def Let_def step)

lemma forEach_map:
  assumes step: "\<And>a s. Q s \<Longrightarrow> Q (snd (cb a s)) \<and> fst (cb a s) = f a"
  shows "Q s \<Longrightarrow> fst (forEach cb xs s) = map f xs"
  by (induction xs arbitrary: s) (auto simp: split_def Let_def step)

lemma collidesWith_same_box: "same_box p q \<Longrightarrow> collidesWith q ob = collidesWith p ob"
  by (simp add: same_box_def collidesWith_def getBounds_def)

lemma kept_refl: "kept_by_collisions g g"
  by (simp add: kept_by_collisions_def same_box_def)

lemma kept_trans:
  "kept_by_collisions g g1 \<Longrightarrow> kept_by_collisions g1 g2 \<Longrightarrow> kept_by_collisions g g2"
  by (simp add: kept_by_collisions_def same_box_def)

lemmas collision_parts =
  createExplosion_def createCoinBurst_def takeDamage_def activateShield_def Date_now_def
  endGame_def stopGameLoop_def collect_def

lemma coin_collision_kept: "kept_by_collisions g (fst (snd (coin_collision c (g, e))))"
  by (simp add: kept_by_collisions_def same_box_def collision_parts split_def Let_def)

lemma powerup_collision_kept: "kept_by_collisions g (fst (snd (powerup_collision u (g, e))))"
  by (simp add: kept_by_collisions_def same_box_def collision_parts split_def Let_def)

lemma npc_collision_kept: "kept_by_collisions g (fst (snd (npc_collision n (g, e))))"
  by (simp add: kept_by_collisions_def same_box_def collision_parts split_def Let_def)

lemma hazard_collision_kept: "kept_by_collisions g (fst (snd (hazard_collision h (g, e))))"
  by (simp add: kept_by_collisions_def same_box_def collision_parts split_def Let_def)

lemma coin_collision_elem: "fst (coin_collision c (g, e)) = coin_after (player g) c"
  by (simp add: coin_after_def collision_parts split_def Let_def)

lemma powerup_collision_elem: "fst (powerup_collision u (g, e)) = powerup_after (player g) u"
  by (simp add: powerup_after_def collision_parts split_def Let_def)

lemma npc_collision_elem: "fst (npc_collision n (g, e)) = npc_after (player g) n"
  by (simp add: npc_after_def collision_parts split_def Let_def)

lemma hazard_collision_elem: "fst (hazard_collision h (g, e)) = hazard_after (player g) h"
  by (simp add: hazard_after_def collision_parts split_def Let_def)


lemma pass_result:
  assumes cb_kept: "\<And>a g e. kept_by_collisions g (fst (snd (cb a (g, e))))"
      and cb_elem: "\<And>a g e. fst (cb a (g, e)) = f (player g) a"
      and f_box: "\<And>p q a. same_box p q \<Longrightarrow> f q a = f p a"
  shows "fst (forEach cb xs (g, e)) = map (f (player g)) xs \<and>
         kept_by_collisions g (fst (snd (forEach cb xs (g, e))))"
proof -
  let ?Q = "\<lambda>s. kept_by_collisions g (fst s)"
  have step: "?Q (snd (cb a s)) \<and> fst (cb a s) = f (player g) a" if "?Q s" for a s
  proof -
    obtain g1 e1 where s: "s = (g1, e1)" by (cases s)
    have "kept_by_collisions g g1" using that s by simp
    moreover have "kept_by_collisions g1 (fst (snd (cb a (g1, e1))))" by (rule cb_kept)
    ultimately have "kept_by_collisions g (fst (snd (cb a (g1, e1))))" by (rule kept_trans)
    moreover have "f (player g1) a = f (player g) a"
      using \<open>kept_by_collisions g g1\<close> by (intro f_box) (simp add: kept_by_collisions_def)
    ultimately show ?thesis using s cb_elem [of a g1 e1] by simp
  qed
  have start: "?Q (g, e)" by (simp add: kept_refl)
  have "fst (forEach cb xs (g, e)) = map (f (player g)) xs"
  proof (rule forEach_map [where Q = ?Q])
    show "?Q (snd (cb a s)) \<and> fst (cb a s) = f (player g) a" if "?Q s" for a s
      using that by (rule step)
    show "?Q (g, e)" by (rule start)
  qed
  moreover have "?Q (snd (forEach cb xs (g, e)))"
  proof (rule forEach_state_inv [where Q = ?Q])
    show "?Q (snd (cb a s))" if "?Q s" for a s
      using step [OF that] by simp
    show "?Q (g, e)" by (rule start)
  qed
  ultimately show ?thesis by simp
qed

lemma coin_after_box: "same_box p q \<Longrightarrow> coin_after q c = coin_after p c"
  by (simp add: coin_after_def collidesWith_same_box)
lemma powerup_after_box: "same_box p q \<Longrightarrow> powerup_after q u = powerup_after p u"
  by (simp add: powerup_after_def collidesWith_same_box)
lemma npc_after_box: "same_box p q \<Longrightarrow> npc_after q n = npc_after p n"
  by (simp add: npc_after_def collidesWith_same_box)
lemma hazard_after_box: "same_box p q \<Longrightarrow> hazard_after q h = hazard_after p h"
  by (simp add: hazard_after_def collidesWith_same_box)

lemmas coin_pass = pass_result [of coin_collision coin_after, OF coin_collision_kept coin_collision_elem coin_after_box]
lemmas powerup_pass = pass_result [of powerup_collision powerup_after, OF powerup_collision_kept powerup_collision_elem powerup_after_box]
lemmas npc_pass = pass_result [of npc_collision npc_after, OF npc_collision_kept npc_collision_elem npc_after_box]
lemmas hazard_pass = pass_result [of hazard_collision hazard_after, OF hazard_collision_kept hazard_collision_elem hazard_after_box]

lemma checkCollisions_lists:
  "coins (fst (checkCollisions g e)) = map (coin_after (player g)) (coins g) \<and>
   powerups (fst (checkCollisions g e)) = map (powerup_after (player g)) (powerups g) \<and>
   npcs (fst (checkCollisions g e)) = map (npc_after (player g)) (npcs g) \<and>
   hazards (fst (checkCollisions g e)) = map (hazard_after (player g)) (hazards g) \<and>
   same_box (player g) (player (fst (checkCollisions g e)))"
proof -
  obtain cs g1 e1 where l1: "forEach coin_collision (coins g) (g, e) = (cs, (g1, e1))"
    by (metis surj_pair)
  define g1' where "g1' = g1\<lparr>coins := cs\<rparr>"
  obtain us g2 e2 where l2: "forEach powerup_collision (powerups g1') (g1', e1) = (us, (g2, e2))"
    by (metis surj_pair)
  define g2' where "g2' = g2\<lparr>powerups := us\<rparr>"
  obtain ns g3 e3 where l3: "forEach npc_collision (npcs g2') (g2', e2) = (ns, (g3, e3))"
    by (metis surj_pair)
  define g3' where "g3' = g3\<lparr>npcs := ns\<rparr>"
  obtain hs g4 e4 where l4: "forEach hazard_collision (hazards g3') (g3', e3) = (hs, (g4, e4))"
    by (metis surj_pair)
  have res: "checkCollisions g e = (g4\<lparr>hazards := hs\<rparr>, e4)"
    using l1 l2 l3 l4 by (simp add: checkCollisions_def g1'_def g2'_def g3'_def)
  have k1: "cs = map (coin_after (player g)) (coins g)" "kept_by_collisions g g1"
    using coin_pass [of "coins g" g e] l1 by simp_all
  have b1: "same_box (player g) (player g1')" "powerups g1' = powerups g" "npcs g1' = npcs g"
    "hazards g1' = hazards g" "coins g1' = cs"
    using k1(2) by (simp_all add: g1'_def kept_by_collisions_def)
  have k2: "us = map (powerup_after (player g1')) (powerups g1')" "kept_by_collisions g1' g2"
    using powerup_pass [of "powerups g1'" g1' e1] l2 by simp_all
  have b2: "same_box (player g) (player g2')" "powerups g2' = us" "npcs g2' = npcs g"
    "hazards g2' = hazards g" "coins g2' = cs"
    using k2(2) b1 by (simp_all add: g2'_def kept_by_collisions_def same_box_def)
  have k3: "ns = map (npc_after (player g2')) (npcs g2')" "kept_by_collisions g2' g3"
    using npc_pass [of "npcs g2'" g2' e2] l3 by simp_all
  have b3: "same_box (player g) (player g3')" "powerups g3' = us" "npcs g3' = ns"
    "hazards g3' = hazards g" "coins g3' = cs"
    using k3(2) b2 by (simp_all add: g3'_def kept_by_collisions_def same_box_def)
  have k4: "hs = map (hazard_after (player g3')) (hazards g3')" "kept_by_collisions g3' g4"
    using hazard_pass [of "hazards g3'" g3' e3] l4 by simp_all
  have b4: "same_box (player g) (player g4)" "powerups g4 = us" "npcs g4 = ns" "coins g4 = cs"
    using k4(2) b3 by (simp_all add: kept_by_collisions_def same_box_def)
  show ?thesis
    using res k1(1) k2(1) k3(1) k4(1) b1 b2 b3 b4
    by (simp add: powerup_after_box [OF b1(1)] npc_after_box [OF b2(1)] hazard_after_box [OF b3(1)])
qed


subsection \<open>Power decay\<close>

lemma Player_update_power:
  "power_lvl (fst (Player_update dt p e)) = max 0 (power_lvl p - dt / 1000)"
  by (simp add: Player_update_def Let_def split_def GameObject_update_def POWER_DECAY_RATE_def)

lemma Player_updates_power_from_zero_floor:
  "\<forall>dt\<in>set dts. 0 \<le> dt \<Longrightarrow> 0 \<le> power_lvl p \<Longrightarrow>
   power_lvl (fst (Player_updates dts p e)) = max 0 (power_lvl p - sum_list dts / 1000)"
proof (induction dts arbitrary: p e)
  case Nil
  then show ?case by simp
next
  case (Cons dt dts)
  obtain p1 e1 where step: "Player_update dt p e = (p1, e1)" by (cases "Player_update dt p e")
  have p1: "power_lvl p1 = max 0 (power_lvl p - dt / 1000)"
    using Player_update_power [of dt p e] step by simp
  have "power_lvl (fst (Player_updates dts p1 e1)) = max 0 (power_lvl p1 - sum_list dts / 1000)"
    using Cons.IH [of p1 e1] Cons.prems p1 by simp
  moreover have "0 \<le> sum_list dts" using Cons.prems by (simp add: sum_list_nonneg)
  moreover have "0 \<le> dt" using Cons.prems by simp
  ultimately show ?case using step p1 by (simp add: max_def add_divide_distrib)
qed

lemma Player_updates_power:
  assumes "\<forall>dt\<in>set dts. 0 \<le> dt" and "dts \<noteq> []"
  shows "power_lvl (fst (Player_updates dts p e)) = max 0 (power_lvl p - sum_list dts / 1000)"
proof -
  obtain dt rest where dts: "dts = dt # rest" using assms(2) by (cases dts) auto
  obtain p1 e1 where step: "Player_update dt p e = (p1, e1)" by (cases "Player_update dt p e")
  have p1: "power_lvl p1 = max 0 (power_lvl p - dt / 1000)"
    using Player_update_power [of dt p e] step by simp
  have nonneg: "\<forall>d\<in>set rest. 0 \<le> d" "0 \<le> dt" using assms(1) dts by auto
  have "power_lvl (fst (Player_updates rest p1 e1)) = max 0 (power_lvl p1 - sum_list rest / 1000)"
    using Player_updates_power_from_zero_floor [of rest p1 e1] nonneg p1 by simp
  moreover have "0 \<le> sum_list rest" using nonneg by (simp add: sum_list_nonneg)
  ultimately show ?thesis using step p1 dts nonneg by (simp add: max_def add_divide_distrib)
qed

lemma sum_list_pos_nonempty:
  fixes ds :: "real list"
  shows "\<forall>d\<in>set ds. 0 < d \<Longrightarrow> ds \<noteq> [] \<Longrightarrow> 0 < sum_list ds"
proof (induction ds)
  case Nil
  then show ?case by simp
next
  case (Cons d ds)
  have "0 \<le> sum_list ds"
    using Cons.prems(1) by (intro sum_list_nonneg) (auto intro: less_imp_le)
  moreover have "0 < d" using Cons.prems(1) by simp
  ultimately show ?case by simp
qed


subsection \<open>The fields a frame keeps\<close>

lemma session_kept_refl: "session_kept g g"
  by (simp add: session_kept_def)

lemma session_kept_trans:
  "session_kept g g1 \<Longrightarrow> session_kept g1 g2 \<Longrightarrow> session_kept g g2"
  unfolding session_kept_def by auto

lemma pass_rel:
  assumes r: "\<And>g. R g g" and t: "\<And>g g1 g2. R g g1 \<Longrightarrow> R g1 g2 \<Longrightarrow> R g g2"
      and cb: "\<And>a g e. R g (fst (snd (cb a (g, e))))"
  shows "R g (fst (snd (forEach cb xs (g, e))))"
proof (rule forEach_state_inv [where Q = "\<lambda>s. R g (fst s)"])
  show "R g (fst (snd (cb a s)))" if "R g (fst s)" for a s
  proof -
    obtain g1 e1 where s: "s = (g1, e1)" by (cases s)
    show ?thesis using that cb [of g1 a e1] s by (auto intro: t)
  qed
  show "R g (fst (g, e))" by (simp add: r)
qed

lemma coin_collision_session: "session_kept g (fst (snd (coin_collision c (g, e))))"
  by (simp add: session_kept_def collision_parts split_def Let_def)

lemma powerup_collision_session: "session_kept g (fst (snd (powerup_collision u (g, e))))"
  by (simp add: session_kept_def collision_parts split_def Let_def)

lemma npc_collision_session: "session_kept g (fst (snd (npc_collision n (g, e))))"
  by (simp add: session_kept_def collision_parts split_def Let_def)

lemma hazard_collision_session: "session_kept g (fst (snd (hazard_collision h (g, e))))"
  by (simp add: session_kept_def collision_parts split_def Let_def)

lemma coin_pass_session: "session_kept g (fst (snd (forEach coin_collision xs (g, e))))"
  by (rule pass_rel [where R = session_kept])
     (blast intro: session_kept_refl session_kept_trans coin_collision_session)+

lemma powerup_pass_session: "session_kept g (fst (snd (forEach powerup_collision xs (g, e))))"
  by (rule pass_rel [where R = session_kept])
     (blast intro: session_kept_refl session_kept_trans powerup_collision_session)+

lemma npc_pass_session: "session_kept g (fst (snd (forEach npc_collision xs (g, e))))"
  by (rule pass_rel [where R = session_kept])
     (blast intro: session_kept_refl session_kept_trans npc_collision_session)+

lemma hazard_pass_session: "session_kept g (fst (snd (forEach hazard_collision xs (g, e))))"
  by (rule pass_rel [where R = session_kept])
     (blast intro: session_kept_refl session_kept_trans hazard_collision_session)+

lemma session_kept_lists:
  "session_kept g g' \<Longrightarrow> session_kept g (g'\<lparr>coins := cs\<rparr>)"
  "session_kept g g' \<Longrightarrow> session_kept g (g'\<lparr>powerups := us\<rparr>)"
  "session_kept g g' \<Longrightarrow> session_kept g (g'\<lparr>npcs := ns\<rparr>)"
  "session_kept g g' \<Longrightarrow> session_kept g (g'\<lparr>hazards := hs\<rparr>)"
  "session_kept g g' \<Longrightarrow> session_kept g (g'\<lparr>particles := ps\<rparr>)"
  "session_kept g g' \<Longrightarrow> session_kept g (g'\<lparr>player := p\<rparr>)"
  by (simp_all add: session_kept_def)

lemma checkCollisions_session: "session_kept g (fst (checkCollisions g e))"
proof -
  obtain cs g1 e1 where l1: "forEach coin_collision (coins g) (g, e) = (cs, (g1, e1))"
    by (metis surj_pair)
  define g1' where "g1' = g1\<lparr>coins := cs\<rparr>"
  obtain us g2 e2 where l2: "forEach powerup_collision (powerups g1') (g1', e1) = (us, (g2, e2))"
    by (metis surj_pair)
  define g2' where "g2' = g2\<lparr>powerups := us\<rparr>"
  obtain ns g3 e3 where l3: "forEach npc_collision (npcs g2') (g2', e2) = (ns, (g3, e3))"
    by (metis surj_pair)
  define g3' where "g3' = g3\<lparr>npcs := ns\<rparr>"
  obtain hs g4 e4 where l4: "forEach hazard_collision (hazards g3') (g3', e3) = (hs, (g4, e4))"
    by (metis surj_pair)
  have res: "checkCollisions g e = (g4\<lparr>hazards := hs\<rparr>, e4)"
    using l1 l2 l3 l4 by (simp add: checkCollisions_def g1'_def g2'_def g3'_def)
  have "session_kept g g1"
    using coin_pass_session [of g "coins g" e] l1 by simp
  then have s1: "session_kept g g1'" by (simp add: g1'_def session_kept_lists)
  have "session_kept g1' g2"
    using powerup_pass_session [of g1' "powerups g1'" e1] l2 by simp
  then have s2: "session_kept g g2'"
    using s1 by (auto simp: g2'_def session_kept_lists intro: session_kept_trans)
  have "session_kept g2' g3"
    using npc_pass_session [of g2' "npcs g2'" e2] l3 by simp
  then have s3: "session_kept g g3'"
    using s2 by (auto simp: g3'_def session_kept_lists intro: session_kept_trans)
  have "session_kept g3' g4"
    using hazard_pass_session [of g3' "hazards g3'" e3] l4 by simp
  then have "session_kept g (g4\<lparr>hazards := hs\<rparr>)"
    using s3 by (auto simp: session_kept_lists intro: session_kept_trans)
  then show ?thesis using res by simp
qed

lemma spawnNPC_session: "session_kept g (fst (spawnNPC t g e))"
  by (simp add: session_kept_def spawnNPC_def split_def Let_def)

lemma spawnCoin_session: "session_kept g (fst (spawnCoin t g e))"
  by (simp add: session_kept_def spawnCoin_def split_def Let_def)

lemma spawnPowerup_session: "session_kept g (fst (spawnPowerup t g e))"
  by (simp add: session_kept_def spawnPowerup_def split_def Let_def)

lemma spawnHazard_session: "session_kept g (fst (spawnHazard t g e))"
  by (simp add: session_kept_def spawnHazard_def split_def Let_def)

lemma spawnObjects_session: "session_kept g (fst (spawnObjects dt g e))"
proof -
  obtain t e0 where t: "Date_now e = (t, e0)" by (metis surj_pair)
  obtain g1 e1 where a: "spawnNPC t g e0 = (g1, e1)" by (metis surj_pair)
  obtain g2 e2 where b: "spawnCoin t g1 e1 = (g2, e2)" by (metis surj_pair)
  obtain g3 e3 where c: "spawnPowerup t g2 e2 = (g3, e3)" by (metis surj_pair)
  have res: "spawnObjects dt g e = spawnHazard t g3 e3"
    using t a b c by (simp add: spawnObjects_def)
  have "session_kept g g1" using spawnNPC_session [of g t e0] a by simp
  moreover have "session_kept g1 g2" using spawnCoin_session [of g1 t e1] b by simp
  moreover have "session_kept g2 g3" using spawnPowerup_session [of g2 t e2] c by simp
  moreover have "session_kept g3 (fst (spawnHazard t g3 e3))" by (rule spawnHazard_session)
  ultimately show ?thesis using res by (metis session_kept_trans)
qed

lemma updateObjects_session: "session_kept g (fst (updateObjects dt g e))"
  by (simp add: session_kept_def updateObjects_def split_def Let_def)

lemma updateParticles_session: "session_kept g (updateParticles dt g)"
  by (simp add: session_kept_def updateParticles_def)

lemma update_not_playing: "gameState g \<noteq> PLAYING \<Longrightarrow> update dt g e = (g, e)"
  by (simp add: update_def)

lemma update_time_up:
  "gameState g = PLAYING \<Longrightarrow> gameTime g - dt \<le> 0 \<Longrightarrow>
   update dt g e = (endGame (g\<lparr>gameTime := gameTime g - dt\<rparr>), e)"
  by (simp add: update_def Let_def)

lemma update_playing:
  assumes "gameState g = PLAYING" and "0 < gameTime g - dt"
      and "before_player dt g = g5"
      and "Player_update dt (player g5) e = (p, e1)"
      and "spawnObjects dt (g5\<lparr>player := p\<rparr>) e1 = (g7, e2)"
      and "updateObjects dt g7 e2 = (g8, e3)"
      and "checkCollisions g8 e3 = (g9, e4)"
      and "updateParticles dt g9 = g10"
  shows "update dt g e = (g10, e4)"
  using assms by (simp add: update_def before_player_def Let_def)

lemma update_playing_session:
  assumes "gameState g = PLAYING" and "0 < gameTime g - dt"
  shows "session_kept (before_player dt g) (fst (update dt g e))"
proof -
  define g5 where "g5 = before_player dt g"
  obtain p e1 where a: "Player_update dt (player g5) e = (p, e1)" by (metis surj_pair)
  obtain g7 e2 where b: "spawnObjects dt (g5\<lparr>player := p\<rparr>) e1 = (g7, e2)" by (metis surj_pair)
  obtain g8 e3 where c: "updateObjects dt g7 e2 = (g8, e3)" by (metis surj_pair)
  obtain g9 e4 where d: "checkCollisions g8 e3 = (g9, e4)" by (metis surj_pair)
  have res: "update dt g e = (updateParticles dt g9, e4)"
    using assms a b c d by (intro update_playing) (simp_all add: g5_def)
  have "session_kept g5 (g5\<lparr>player := p\<rparr>)" by (simp add: session_kept_lists session_kept_refl)
  moreover have "session_kept (g5\<lparr>player := p\<rparr>) g7"
    using spawnObjects_session [of "g5\<lparr>player := p\<rparr>" dt e1] b by simp
  moreover have "session_kept g7 g8" using updateObjects_session [of g7 dt e2] c by simp
  moreover have "session_kept g8 g9" using checkCollisions_session [of g8 e3] d by simp
  moreover have "session_kept g9 (updateParticles dt g9)" by (rule updateParticles_session)
  ultimately have "session_kept g5 (updateParticles dt g9)"
    by (blast intro: session_kept_trans)
  then show ?thesis using res by (simp add: g5_def)
qed

subsection \<open>Speed progression over a run of frames\<close>

lemma run_frames_append: "run_frames (fs @ gs) g = run_frames gs (run_frames fs g)"
  by (induction fs arbitrary: g) auto

lemma elapsed_times_snoc:
  "elapsed_times acc (dts @ [dt]) = elapsed_times acc dts @ [acc + sum_list dts + dt]"
  by (induction dts arbitrary: acc) (auto simp: algebra_simps)

lemma reached_snoc:
  "reached secs (dts @ [dt]) = (reached secs dts \<or> secs \<le> (sum_list dts + dt) / 1000)"
  by (simp add: reached_def elapsed_times_snoc)

lemma reached_40_20: "reached 40 dts \<Longrightarrow> reached 20 dts"
proof -
  assume "reached 40 dts"
  then obtain t where t: "t \<in> set (elapsed_times 0 dts)" "40 \<le> t / 1000"
    by (auto simp: reached_def list_ex_iff)
  then have "20 \<le> t / 1000" by simp
  with t(1) show ?thesis by (auto simp: reached_def list_ex_iff)
qed

lemma handleInput_session_fields:
  "gameTime (handleInput g) = gameTime g"
  "speedIncreaseApplied20s (handleInput g) = speedIncreaseApplied20s g"
  "speedIncreaseApplied40s (handleInput g) = speedIncreaseApplied40s g"
  "currentSpeedMultiplier (handleInput g) = currentSpeedMultiplier g"
  "console (handleInput g) = console g"
  "gameState (handleInput g) = gameState g"
  "isGameLoopRunning (handleInput g) = isGameLoopRunning g"
  by (simp_all add: handleInput_def Let_def)

lemma before_player_as_progression:
  fixes g dt
  defines "u \<equiv> updateSpeedProgression (g\<lparr>gameTime := gameTime g - dt\<rparr>)"
  shows "gameTime (before_player dt g) = gameTime u"
    and "speedIncreaseApplied20s (before_player dt g) = speedIncreaseApplied20s u"
    and "speedIncreaseApplied40s (before_player dt g) = speedIncreaseApplied40s u"
    and "currentSpeedMultiplier (before_player dt g) = currentSpeedMultiplier u"
    and "console (before_player dt g) = console u"
    and "gameState (before_player dt g) = gameState u"
    and "isGameLoopRunning (before_player dt g) = isGameLoopRunning u"
  unfolding u_def by (simp_all add: before_player_def Let_def handleInput_session_fields)

lemma progression_time: "gameTime (updateSpeedProgression g) = gameTime g"
  by (simp add: updateSpeedProgression_def Let_def)

lemma progression_state:
  "gameState (updateSpeedProgression g) = gameState g"
  "isGameLoopRunning (updateSpeedProgression g) = isGameLoopRunning g"
  by (simp_all add: updateSpeedProgression_def Let_def)

lemma progression_latch20:
  "speedIncreaseApplied20s (updateSpeedProgression g) =
     (speedIncreaseApplied20s g \<or> 20 \<le> (GAME_DURATION - gameTime g) / 1000)"
  by (auto simp: updateSpeedProgression_def Let_def)

lemma progression_latch40:
  "speedIncreaseApplied40s (updateSpeedProgression g) =
     (speedIncreaseApplied40s g \<or> 40 \<le> (GAME_DURATION - gameTime g) / 1000)"
  by (auto simp: updateSpeedProgression_def Let_def)

lemma progression_multiplier:
  "currentSpeedMultiplier (updateSpeedProgression g) =
     (if 40 \<le> (GAME_DURATION - gameTime g) / 1000 \<and> \<not> speedIncreaseApplied40s g
      then SPEED_INCREASE_40S
      else if 20 \<le> (GAME_DURATION - gameTime g) / 1000 \<and> \<not> speedIncreaseApplied20s g
      then SPEED_INCREASE_20S else currentSpeedMultiplier g)"
  by (auto simp: updateSpeedProgression_def Let_def)

lemma progression_console:
  "console (updateSpeedProgression g) =
     console g @
     (if 20 \<le> (GAME_DURATION - gameTime g) / 1000 \<and> \<not> speedIncreaseApplied20s g
      then [msg20] else []) @
     (if 40 \<le> (GAME_DURATION - gameTime g) / 1000 \<and> \<not> speedIncreaseApplied40s g
      then [msg40] else [])"
  by (auto simp: updateSpeedProgression_def Let_def msg20_def msg40_def)

lemma before_player_progress:
  fixes g dt
  defines "te \<equiv> (GAME_DURATION - (gameTime g - dt)) / 1000"
  defines "b \<equiv> before_player dt g"
  shows "gameTime b = gameTime g - dt"
    and "speedIncreaseApplied20s b = (speedIncreaseApplied20s g \<or> 20 \<le> te)"
    and "speedIncreaseApplied40s b = (speedIncreaseApplied40s g \<or> 40 \<le> te)"
    and "currentSpeedMultiplier b =
           (if 40 \<le> te \<and> \<not> speedIncreaseApplied40s g then SPEED_INCREASE_40S
            else if 20 \<le> te \<and> \<not> speedIncreaseApplied20s g then SPEED_INCREASE_20S
            else currentSpeedMultiplier g)"
    and "console b = console g @ (if 20 \<le> te \<and> \<not> speedIncreaseApplied20s g then [msg20] else [])
                               @ (if 40 \<le> te \<and> \<not> speedIncreaseApplied40s g then [msg40] else [])"
    and "gameState b = gameState g" and "isGameLoopRunning b = isGameLoopRunning g"
  unfolding te_def b_def
  by (simp_all only: before_player_as_progression progression_time progression_state
        progression_latch20 progression_latch40 progression_multiplier progression_console)
     simp_all

lemma gameLoop_playing_after:
  "gameState (fst (gameLoop dt g e)) = PLAYING \<Longrightarrow>
   gameState g = PLAYING \<and> (isGameLoopRunning g \<longrightarrow> 0 < gameTime g - dt)"
proof -
  assume after: "gameState (fst (gameLoop dt g e)) = PLAYING"
  show ?thesis
  proof (cases "isGameLoopRunning g")
    case False
    then show ?thesis using after by (simp add: gameLoop_def)
  next
    case True
    then have up: "gameState (fst (update dt g e)) = PLAYING" using after by (simp add: gameLoop_def)
    have play: "gameState g = PLAYING"
      using up update_not_playing [of g dt e] by (cases "gameState g = PLAYING") auto
    have "0 < gameTime g - dt"
    proof (rule ccontr)
      assume "\<not> 0 < gameTime g - dt"
      then have "update dt g e = (endGame (g\<lparr>gameTime := gameTime g - dt\<rparr>), e)"
        using play by (intro update_time_up) auto
      then show False using up by (simp add: endGame_def stopGameLoop_def)
    qed
    with play show ?thesis by simp
  qed
qed

lemma run_frames_playing_prefix:
  "gameState (run_frames (fs @ gs) g) = PLAYING \<Longrightarrow> gameState (run_frames fs g) = PLAYING"
proof (induction gs rule: rev_induct)
  case Nil
  then show ?case by simp
next
  case (snoc f gs)
  obtain dt e where f: "f = (dt, e)" by (cases f)
  have "gameState (fst (gameLoop dt (run_frames (fs @ gs) g) e)) = PLAYING"
    using snoc.prems f run_frames_append [of "fs @ gs" "[f]" g] by simp
  then have "gameState (run_frames (fs @ gs) g) = PLAYING"
    using gameLoop_playing_after by blast
  then show ?case by (rule snoc.IH)
qed

lemma startGame_loaded_fresh:
  "gameState (startGame_loaded g e) = PLAYING"
  "isGameLoopRunning (startGame_loaded g e)"
  "gameTime (startGame_loaded g e) = GAME_DURATION"
  "\<not> speedIncreaseApplied20s (startGame_loaded g e)"
  "\<not> speedIncreaseApplied40s (startGame_loaded g e)"
  "currentSpeedMultiplier (startGame_loaded g e) = 1"
  by (simp_all add: startGame_loaded_def resetGame_def startGameLoop_def Let_def)

lemma progression_invariant:
  assumes "gameState (run_frames fs (startGame_loaded g e)) = PLAYING"
  defines "gk \<equiv> run_frames fs (startGame_loaded g e)"
  defines "dts \<equiv> map fst fs"
  shows "isGameLoopRunning gk \<and> gameTime gk = GAME_DURATION - sum_list dts \<and>
         speedIncreaseApplied20s gk = reached 20 dts \<and>
         speedIncreaseApplied40s gk = reached 40 dts \<and>
         currentSpeedMultiplier gk = expected_multiplier dts \<and>
         console gk = console (startGame_loaded g e) @ expected_log dts"
  using assms(1) unfolding gk_def dts_def
proof (induction fs rule: rev_induct)
  case Nil
  then show ?case
    by (simp add: startGame_loaded_fresh reached_def expected_multiplier_def expected_log_def)
next
  case (snoc f fs)
  obtain dt e' where f: "f = (dt, e')" by (cases f)
  define gk where "gk = run_frames fs (startGame_loaded g e)"
  define dts where "dts = map fst fs"
  have after: "gameState (fst (gameLoop dt gk e')) = PLAYING"
    using snoc.prems f by (simp add: run_frames_append gk_def)
  then have play: "gameState gk = PLAYING" using gameLoop_playing_after by blast
  then have ih: "isGameLoopRunning gk" "gameTime gk = GAME_DURATION - sum_list dts"
    "speedIncreaseApplied20s gk = reached 20 dts" "speedIncreaseApplied40s gk = reached 40 dts"
    "currentSpeedMultiplier gk = expected_multiplier dts"
    "console gk = console (startGame_loaded g e) @ expected_log dts"
    using snoc.IH by (simp_all add: gk_def dts_def)
  have time: "0 < gameTime gk - dt" using after gameLoop_playing_after ih(1) by blast
  define g' where "g' = fst (update dt gk e')"
  have g'_play: "gameState g' = PLAYING" using after ih(1) by (simp add: gameLoop_def g'_def)
  have kept: "session_kept (before_player dt gk) g'"
    unfolding g'_def using play time by (rule update_playing_session)
  note bp = before_player_progress [of dt gk]
  have te: "(GAME_DURATION - (gameTime gk - dt)) / 1000 = (sum_list dts + dt) / 1000"
    using ih(2) by simp
  have r20: "reached 20 (dts @ [dt]) = (reached 20 dts \<or> 20 \<le> (sum_list dts + dt) / 1000)"
    and r40: "reached 40 (dts @ [dt]) = (reached 40 dts \<or> 40 \<le> (sum_list dts + dt) / 1000)"
    by (rule reached_snoc)+
  have run: "isGameLoopRunning g'"
    using kept g'_play bp(6,7) ih(1) play by (auto simp: session_kept_def)
  have tm: "gameTime g' = GAME_DURATION - sum_list (dts @ [dt])"
    using kept bp(1) ih(2) by (simp add: session_kept_def)
  have l20: "speedIncreaseApplied20s g' = reached 20 (dts @ [dt])"
    using kept bp(2) ih(3) te r20 by (simp add: session_kept_def)
  have l40: "speedIncreaseApplied40s g' = reached 40 (dts @ [dt])"
    using kept bp(3) ih(4) te r40 by (simp add: session_kept_def)
  have forty_twenty: "40 \<le> (sum_list dts + dt) / 1000 \<Longrightarrow> 20 \<le> (sum_list dts + dt) / 1000"
    by simp
  have mult: "currentSpeedMultiplier g' = expected_multiplier (dts @ [dt])"
    using kept bp(4) ih(3,4,5) te r20 r40 reached_40_20 [of dts] forty_twenty
    by (auto simp: session_kept_def expected_multiplier_def)
  have log: "console g' = console (startGame_loaded g e) @ expected_log (dts @ [dt])"
    using kept bp(5) ih(3,4,6) te r20 r40 reached_40_20 [of dts] forty_twenty
    by (auto simp: session_kept_def expected_log_def)
  have "run_frames (fs @ [f]) (startGame_loaded g e) = g'"
    using f ih(1) by (simp add: run_frames_append gk_def g'_def gameLoop_def)
  moreover have "map fst (fs @ [f]) = dts @ [dt]" using f by (simp add: dts_def)
  ultimately show ?case using run tm l20 l40 mult log by simp
qed

subsection \<open>Velocities and avoidance offsets\<close>

lemma forEach_map_inv:
  assumes "\<And>a s. f (fst (cb a s)) = f a"
  shows "map f (fst (forEach cb xs s)) = map f xs"
  by (induction xs arbitrary: s) (auto simp: split_def Let_def assms)

lemma forEach_list_all:
  assumes step: "\<And>a s. P a \<Longrightarrow> P (fst (cb a s))"
  shows "list_all P xs \<Longrightarrow> list_all P (fst (forEach cb xs s))"
  by (induction xs arbitrary: s) (auto simp: split_def Let_def step)

lemma updateForwardMovement_velocityY:
  "velocityY (fst (updateForwardMovement dt n e)) = velocityY n"
  by (simp add: updateForwardMovement_def Let_def)

lemma updateLaneChanging_velocityY:
  "velocityY (fst (updateLaneChanging dt n e)) = velocityY n"
  by (simp add: updateLaneChanging_def split_def Let_def)

lemma avoid_velocityY: "velocityY (avoid dt p n) = velocityY n"
  by (simp add: avoid_def Let_def)

lemma GameObject_update_velocityY: "velocityY (GameObject_update dt ob) = velocityY ob"
  by (simp add: GameObject_update_def)

lemma NPC_update_velocityY: "velocityY (fst (NPC_update dt p n e)) = velocityY n"
  by (simp add: NPC_update_def split_def Let_def avoid_velocityY updateLaneChanging_velocityY
        updateForwardMovement_velocityY GameObject_update_velocityY)

lemma Coin_update_velocityY: "velocityY (fst (Coin_update dt c e)) = velocityY c"
  by (simp add: Coin_update_def GameObject_update_def split_def Let_def)

lemma Powerup_update_velocityY: "velocityY (Powerup_update dt u e) = velocityY u"
  by (simp add: Powerup_update_def GameObject_update_def Let_def)

lemma Hazard_update_velocityY: "velocityY (Hazard_update dt h e) = velocityY h"
  by (simp add: Hazard_update_def GameObject_update_def Let_def)

lemma after_velocityY:
  "velocityY (npc_after p n) = velocityY n"
  "velocityY (coin_after p c) = velocityY c"
  "velocityY (powerup_after p u) = velocityY u"
  "velocityY (hazard_after p h) = velocityY h"
  by (simp_all add: npc_after_def coin_after_def powerup_after_def hazard_after_def collect_def)

lemma updateForwardMovement_offset:
  "avoidanceOffset (fst (updateForwardMovement dt n e)) = avoidanceOffset n"
  by (simp add: updateForwardMovement_def Let_def)

lemma updateLaneChanging_offset:
  "avoidanceOffset (fst (updateLaneChanging dt n e)) = avoidanceOffset n"
  by (simp add: updateLaneChanging_def split_def Let_def)

lemma before_avoid_offset: "avoidanceOffset (before_avoid dt n e) = avoidanceOffset n"
  by (simp add: before_avoid_def split_def Let_def updateLaneChanging_offset
        updateForwardMovement_offset GameObject_update_def)

lemma NPC_update_offset:
  "avoidanceOffset (fst (NPC_update dt p n e)) = avoidanceOffset (avoid dt p (before_avoid dt n e))"
  by (simp add: NPC_update_def before_avoid_def split_def Let_def)

lemma avoid_triggered:
  "avoidance_triggered n p \<Longrightarrow> offset_within 60 (avoid dt p n)"
  by (simp add: avoid_def Let_def offset_within_def)

lemma avoid_not_triggered:
  "\<not> avoidance_triggered n p \<Longrightarrow> avoidanceOffset (avoid dt p n) = avoidanceOffset n * 0.9"
  by (simp add: avoid_def Let_def)

lemma avoid_within_80: "offset_within 80 n \<Longrightarrow> offset_within 80 (avoid dt p n)"
proof (cases "avoidance_triggered n p")
  case True
  then show ?thesis using avoid_triggered [of n p dt] by (simp add: offset_within_def)
next
  case False
  assume "offset_within 80 n"
  then show ?thesis using avoid_not_triggered [OF False, of dt] by (simp add: offset_within_def)
qed

lemma NPC_update_within_80:
  "offset_within 80 n \<Longrightarrow> offset_within 80 (fst (NPC_update dt p n e))"
  using avoid_within_80 [of "before_avoid dt n e" dt p]
  by (simp add: offset_within_def NPC_update_offset before_avoid_offset)

lemma npc_after_within_80: "offset_within 80 n \<Longrightarrow> offset_within 80 (npc_after p n)"
  by (simp add: npc_after_def offset_within_def)

lemma new_NPC_offset: "avoidanceOffset (fst (new_NPC l e)) = 0"
  by (simp add: new_NPC_def split_def Let_def)

lemma spawnNPC_within_80:
  "list_all (offset_within 80) (npcs g) \<Longrightarrow> list_all (offset_within 80) (npcs (fst (spawnNPC t g e)))"
  by (simp add: spawnNPC_def split_def Let_def offset_within_def new_NPC_offset)

lemma spawn_others_npcs:
  "npcs (fst (spawnCoin t g e)) = npcs g"
  "npcs (fst (spawnPowerup t g e)) = npcs g"
  "npcs (fst (spawnHazard t g e)) = npcs g"
  by (simp_all add: spawnCoin_def spawnPowerup_def spawnHazard_def split_def Let_def)

lemma spawnObjects_npcs:
  "npcs (fst (spawnObjects dt g e)) = npcs (fst (spawnNPC (fst (Date_now e)) g (snd (Date_now e))))"
  by (simp add: spawnObjects_def split_def Let_def spawn_others_npcs)

lemma spawnObjects_within_80:
  "list_all (offset_within 80) (npcs g) \<Longrightarrow>
   list_all (offset_within 80) (npcs (fst (spawnObjects dt g e)))"
  by (simp add: spawnObjects_npcs spawnNPC_within_80)

lemma updateObjects_npcs:
  "npcs (fst (updateObjects dt g e)) = filter active (fst (forEach (NPC_update dt (player g)) (npcs g) e))"
  by (simp add: updateObjects_def split_def Let_def)

lemma updateObjects_within_80:
  assumes "list_all (offset_within 80) (npcs g)"
  shows "list_all (offset_within 80) (npcs (fst (updateObjects dt g e)))"
proof -
  have "list_all (offset_within 80) (fst (forEach (NPC_update dt (player g)) (npcs g) e))"
    using assms by (intro forEach_list_all) (auto intro: NPC_update_within_80)
  then show ?thesis by (simp add: updateObjects_npcs list_all_iff)
qed

lemma checkCollisions_within_80:
  assumes "list_all (offset_within 80) (npcs g)"
  shows "list_all (offset_within 80) (npcs (fst (checkCollisions g e)))"
  using assms checkCollisions_lists [of g e]
  by (auto simp: list_all_iff intro: npc_after_within_80)

lemma updateSpeedProgression_lists:
  "npcs (updateSpeedProgression g) = npcs g" "coins (updateSpeedProgression g) = coins g"
  "powerups (updateSpeedProgression g) = powerups g" "hazards (updateSpeedProgression g) = hazards g"
  "particles (updateSpeedProgression g) = particles g" "player (updateSpeedProgression g) = player g"
  by (simp_all add: updateSpeedProgression_def Let_def)

lemma handleInput_lists:
  "npcs (handleInput g) = npcs g" "coins (handleInput g) = coins g"
  "powerups (handleInput g) = powerups g" "hazards (handleInput g) = hazards g"
  "particles (handleInput g) = particles g"
  by (simp_all add: handleInput_def Let_def)

lemma before_player_lists:
  "npcs (before_player dt g) = npcs g" "coins (before_player dt g) = coins g"
  "powerups (before_player dt g) = powerups g" "hazards (before_player dt g) = hazards g"
  "particles (before_player dt g) = particles g"
  by (simp_all add: before_player_def Let_def handleInput_lists updateSpeedProgression_lists)

lemma update_within_80:
  assumes "list_all (offset_within 80) (npcs g)"
  shows "list_all (offset_within 80) (npcs (fst (update dt g e)))"
proof (cases "gameState g = PLAYING")
  case False
  then show ?thesis using assms by (simp add: update_not_playing)
next
  case True
  show ?thesis
  proof (cases "0 < gameTime g - dt")
    case False
    then have "update dt g e = (endGame (g\<lparr>gameTime := gameTime g - dt\<rparr>), e)"
      using True by (intro update_time_up) auto
    then show ?thesis using assms by (simp add: endGame_def stopGameLoop_def)
  next
    case time: True
    define g5 where "g5 = before_player dt g"
    obtain p e1 where a: "Player_update dt (player g5) e = (p, e1)" by (metis surj_pair)
    obtain g7 e2 where b: "spawnObjects dt (g5\<lparr>player := p\<rparr>) e1 = (g7, e2)" by (metis surj_pair)
    obtain g8 e3 where c: "updateObjects dt g7 e2 = (g8, e3)" by (metis surj_pair)
    obtain g9 e4 where d: "checkCollisions g8 e3 = (g9, e4)" by (metis surj_pair)
    have res: "update dt g e = (updateParticles dt g9, e4)"
      using True time a b c d by (intro update_playing) (simp_all add: g5_def)
    have "list_all (offset_within 80) (npcs (g5\<lparr>player := p\<rparr>))"
      using assms by (simp add: g5_def before_player_lists)
    then have "list_all (offset_within 80) (npcs g7)"
      using spawnObjects_within_80 [of "g5\<lparr>player := p\<rparr>" dt e1] b by simp
    then have "list_all (offset_within 80) (npcs g8)"
      using updateObjects_within_80 [of g7 dt e2] c by simp
    then have "list_all (offset_within 80) (npcs g9)"
      using checkCollisions_within_80 [of g8 e3] d by simp
    then show ?thesis using res by (simp add: updateParticles_def)
  qed
qed

subsection \<open>Reachable managers, purging, the order of a frame\<close>

lemma reachable_within_80: "reachable g \<Longrightarrow> list_all (offset_within 80) (npcs g)"
proof (induction rule: reachable.induct)
  case (constructed e)
  then show ?case by (simp add: new_GameManager_def)
next
  case (start_clicked g)
  then show ?case by (simp add: startGame_def)
next
  case (loaded g e)
  then show ?case by (simp add: startGame_loaded_def resetGame_def startGameLoop_def Let_def)
next
  case (frame g dt e)
  then show ?case using update_within_80 [of g dt e] by (simp add: gameLoop_def)
next
  case (key_down g code)
  then show ?case by (simp add: keydown_def)
next
  case (key_up g code)
  then show ?case by (simp add: keyup_def)
next
  case (pointer g i)
  then show ?case by (simp add: pointer_to_lane_def)
qed

lemma updateObjects_lists:
  "\<exists>e1. npcs (fst (updateObjects dt g e)) =
           filter active (fst (forEach (NPC_update dt (player g)) (npcs g) e)) \<and>
        coins (fst (updateObjects dt g e)) = filter active (fst (forEach (Coin_update dt) (coins g) e1)) \<and>
        powerups (fst (updateObjects dt g e)) =
           filter active (map (\<lambda>u. Powerup_update dt u (snd (updateObjects dt g e))) (powerups g)) \<and>
        hazards (fst (updateObjects dt g e)) =
           filter active (map (\<lambda>h. Hazard_update dt h (snd (updateObjects dt g e))) (hazards g))"
  by (rule exI [where x = "snd (forEach (NPC_update dt (player g)) (npcs g) e)"])
     (simp add: updateObjects_def split_def Let_def)

lemma updateObjects_all_active:
  "list_all active (npcs (fst (updateObjects dt g e))) \<and>
   list_all active (coins (fst (updateObjects dt g e))) \<and>
   list_all active (powerups (fst (updateObjects dt g e))) \<and>
   list_all active (hazards (fst (updateObjects dt g e)))"
  using updateObjects_lists [of dt g e] by (auto simp: list_all_iff)

lemma updateParticles_all_active: "list_all Particle.active (particles (updateParticles dt g))"
  by (simp add: updateParticles_def list_all_iff)

lemma update_from_spawn:
  assumes "gameState g = PLAYING" and "0 < gameTime g - dt"
  shows "update dt g e =
           (let (g6, e1) = spawn_input dt g e;
                (g7, e2) = spawnObjects dt g6 e1;
                (g8, e3) = updateObjects dt g7 e2;
                (g9, e4) = checkCollisions g8 e3
            in (updateParticles dt g9, e4))"
proof -
  define g5 where "g5 = before_player dt g"
  obtain p e1 where a: "Player_update dt (player g5) e = (p, e1)" by (metis surj_pair)
  obtain g7 e2 where b: "spawnObjects dt (g5\<lparr>player := p\<rparr>) e1 = (g7, e2)" by (metis surj_pair)
  obtain g8 e3 where c: "updateObjects dt g7 e2 = (g8, e3)" by (metis surj_pair)
  obtain g9 e4 where d: "checkCollisions g8 e3 = (g9, e4)" by (metis surj_pair)
  have res: "update dt g e = (updateParticles dt g9, e4)"
    using assms a b c d by (intro update_playing) (simp_all add: g5_def)
  have "spawn_input dt g e = (g5\<lparr>player := p\<rparr>, e1)"
    using a by (simp add: spawn_input_def g5_def)
  then show ?thesis using res b c d by simp
qed

lemma spawn_input_lists:
  "npcs (fst (spawn_input dt g e)) = npcs g \<and> coins (fst (spawn_input dt g e)) = coins g \<and>
   powerups (fst (spawn_input dt g e)) = powerups g \<and> hazards (fst (spawn_input dt g e)) = hazards g"
  by (simp add: spawn_input_def split_def Let_def before_player_lists)

subsection \<open>Velocities over a frame\<close>

lemma appended_refl: "appended g g"
  by (simp add: appended_def)

lemma appended_trans: "appended g g1 \<Longrightarrow> appended g1 g2 \<Longrightarrow> appended g g2"
  unfolding appended_def by (metis append.assoc)

lemma spawnNPC_appended: "appended g (fst (spawnNPC t g e))"
  by (simp add: appended_def spawnNPC_def split_def Let_def)

lemma spawnCoin_appended: "appended g (fst (spawnCoin t g e))"
  by (simp add: appended_def spawnCoin_def split_def Let_def)

lemma spawnPowerup_appended: "appended g (fst (spawnPowerup t g e))"
  by (simp add: appended_def spawnPowerup_def split_def Let_def)

lemma spawnHazard_appended: "appended g (fst (spawnHazard t g e))"
  by (simp add: appended_def spawnHazard_def split_def Let_def)

lemma spawnObjects_appended: "appended g (fst (spawnObjects dt g e))"
proof -
  obtain t e0 where t: "Date_now e = (t, e0)" by (metis surj_pair)
  obtain g1 e1 where a: "spawnNPC t g e0 = (g1, e1)" by (metis surj_pair)
  obtain g2 e2 where b: "spawnCoin t g1 e1 = (g2, e2)" by (metis surj_pair)
  obtain g3 e3 where c: "spawnPowerup t g2 e2 = (g3, e3)" by (metis surj_pair)
  have res: "spawnObjects dt g e = spawnHazard t g3 e3"
    using t a b c by (simp add: spawnObjects_def)
  have "appended g g1" using spawnNPC_appended [of g t e0] a by simp
  moreover have "appended g1 g2" using spawnCoin_appended [of g1 t e1] b by simp
  moreover have "appended g2 g3" using spawnPowerup_appended [of g2 t e2] c by simp
  moreover have "appended g3 (fst (spawnHazard t g3 e3))" by (rule spawnHazard_appended)
  ultimately show ?thesis using res by (metis appended_trans)
qed

lemma velocities_kept_same_lists:
  "npcs g' = npcs g \<Longrightarrow> coins g' = coins g \<Longrightarrow> powerups g' = powerups g \<Longrightarrow>
   hazards g' = hazards g \<Longrightarrow> velocities_kept g g'"
  unfolding velocities_kept_def by (metis append_Nil2 subseq_order.order_refl)

lemma updateObjects_velocities:
  "subseq (map velocityY (npcs (fst (updateObjects dt g e)))) (map velocityY (npcs g)) \<and>
   subseq (map velocityY (coins (fst (updateObjects dt g e)))) (map velocityY (coins g)) \<and>
   subseq (map velocityY (powerups (fst (updateObjects dt g e)))) (map velocityY (powerups g)) \<and>
   subseq (map velocityY (hazards (fst (updateObjects dt g e)))) (map velocityY (hazards g))"
proof -
  obtain e1 where l:
    "npcs (fst (updateObjects dt g e)) =
       filter active (fst (forEach (NPC_update dt (player g)) (npcs g) e))"
    "coins (fst (updateObjects dt g e)) = filter active (fst (forEach (Coin_update dt) (coins g) e1))"
    "powerups (fst (updateObjects dt g e)) =
       filter active (map (\<lambda>u. Powerup_update dt u (snd (updateObjects dt g e))) (powerups g))"
    "hazards (fst (updateObjects dt g e)) =
       filter active (map (\<lambda>h. Hazard_update dt h (snd (updateObjects dt g e))) (hazards g))"
    using updateObjects_lists [of dt g e] by blast
  have n: "map velocityY (fst (forEach (NPC_update dt (player g)) (npcs g) e)) = map velocityY (npcs g)"
    by (rule forEach_map_inv) (rule NPC_update_velocityY)
  have c: "map velocityY (fst (forEach (Coin_update dt) (coins g) e1)) = map velocityY (coins g)"
    by (rule forEach_map_inv) (rule Coin_update_velocityY)
  have u: "map velocityY (map (\<lambda>u. Powerup_update dt u (snd (updateObjects dt g e))) (powerups g))
             = map velocityY (powerups g)"
    by (simp add: Powerup_update_velocityY)
  have h: "map velocityY (map (\<lambda>h. Hazard_update dt h (snd (updateObjects dt g e))) (hazards g))
             = map velocityY (hazards g)"
    by (simp add: Hazard_update_velocityY)
  have sf: "subseq (map velocityY (filter active xs)) (map velocityY xs)"
    for xs :: "'a GameObject_scheme list"
    by (intro subseq_map subseq_filter_left)
  show ?thesis
    unfolding l using sf [of "fst (forEach (NPC_update dt (player g)) (npcs g) e)"]
      sf [of "fst (forEach (Coin_update dt) (coins g) e1)"]
      sf [of "map (\<lambda>u. Powerup_update dt u (snd (updateObjects dt g e))) (powerups g)"]
      sf [of "map (\<lambda>h. Hazard_update dt h (snd (updateObjects dt g e))) (hazards g)"]
    unfolding n c u h by simp
qed

lemma checkCollisions_velocities:
  "map velocityY (npcs (fst (checkCollisions g e))) = map velocityY (npcs g) \<and>
   map velocityY (coins (fst (checkCollisions g e))) = map velocityY (coins g) \<and>
   map velocityY (powerups (fst (checkCollisions g e))) = map velocityY (powerups g) \<and>
   map velocityY (hazards (fst (checkCollisions g e))) = map velocityY (hazards g)"
  using checkCollisions_lists [of g e] by (simp add: after_velocityY comp_def)

lemma update_velocities_kept: "velocities_kept g (fst (update dt g e))"
proof (cases "gameState g = PLAYING")
  case False
  then show ?thesis by (simp add: update_not_playing velocities_kept_same_lists)
next
  case True
  show ?thesis
  proof (cases "0 < gameTime g - dt")
    case False
    then have "update dt g e = (endGame (g\<lparr>gameTime := gameTime g - dt\<rparr>), e)"
      using True by (intro update_time_up) auto
    then show ?thesis by (simp add: endGame_def stopGameLoop_def velocities_kept_same_lists)
  next
    case time: True
    obtain g6 e1 where a: "spawn_input dt g e = (g6, e1)" by (metis surj_pair)
    obtain g7 e2 where b: "spawnObjects dt g6 e1 = (g7, e2)" by (metis surj_pair)
    obtain g8 e3 where c: "updateObjects dt g7 e2 = (g8, e3)" by (metis surj_pair)
    obtain g9 e4 where d: "checkCollisions g8 e3 = (g9, e4)" by (metis surj_pair)
    have res: "update dt g e = (updateParticles dt g9, e4)"
      using update_from_spawn [OF True time, of e] a b c d by simp
    have l6: "npcs g6 = npcs g" "coins g6 = coins g" "powerups g6 = powerups g" "hazards g6 = hazards g"
      using spawn_input_lists [of dt g e] a by simp_all
    have "appended g6 g7" using spawnObjects_appended [of g6 dt e1] b by simp
    then obtain ns cs us hs where l7: "npcs g7 = npcs g @ ns" "coins g7 = coins g @ cs"
      "powerups g7 = powerups g @ us" "hazards g7 = hazards g @ hs"
      unfolding appended_def l6 by blast
    have l8: "subseq (map velocityY (npcs g8)) (map velocityY (npcs g7))"
      "subseq (map velocityY (coins g8)) (map velocityY (coins g7))"
      "subseq (map velocityY (powerups g8)) (map velocityY (powerups g7))"
      "subseq (map velocityY (hazards g8)) (map velocityY (hazards g7))"
      using updateObjects_velocities [of dt g7 e2] c by simp_all
    have l9: "map velocityY (npcs g9) = map velocityY (npcs g8)"
      "map velocityY (coins g9) = map velocityY (coins g8)"
      "map velocityY (powerups g9) = map velocityY (powerups g8)"
      "map velocityY (hazards g9) = map velocityY (hazards g8)"
      using checkCollisions_velocities [of g8 e3] d by simp_all
    have "subseq (map velocityY (npcs g9)) (map velocityY (npcs g) @ map velocityY ns)"
      "subseq (map velocityY (coins g9)) (map velocityY (coins g) @ map velocityY cs)"
      "subseq (map velocityY (powerups g9)) (map velocityY (powerups g) @ map velocityY us)"
      "subseq (map velocityY (hazards g9)) (map velocityY (hazards g) @ map velocityY hs)"
      using l8 l7 l9 by simp_all
    then show ?thesis
      unfolding velocities_kept_def res by (auto simp: updateParticles_def)
  qed
qed

subsection \<open>Concrete frames\<close>

lemma Particle_update_dies: "life q \<le> dt \<Longrightarrow> \<not> Particle.active (Particle_update dt q)"
  by (simp add: Particle_update_def Let_def)

lemma explosion_particles_life: "q \<in> set (explosion_particles px py e) \<Longrightarrow> life q = 800"
  by (auto simp: explosion_particles_def new_Particle_def Let_def)

lemma explosion_particles_die:
  "800 \<le> dt \<Longrightarrow> filter Particle.active (map (Particle_update dt) (explosion_particles px py e)) = []"
  by (auto simp: filter_empty_conv explosion_particles_life intro!: Particle_update_dies)

lemmas start_eval =
  session_start_def startGame_loaded_def startGame_def new_GameManager_def resetGame_def
  startGameLoop_def new_Player_def env_half_def GAME_CONFIG

lemmas state_eval = cruising_def player_at_def npc_hit_def env_half_def

lemmas before_eval =
  before_player_def updateSpeedProgression_def handleInput_def changeLane_def GAME_CONFIG

lemmas player_step_eval =
  GAME_CONFIG LANES_at_def Date_now_def GameObject_update_def Player_update_def

lemmas spawn_eval =
  spawnObjects_def spawnNPC_def spawnCoin_def spawnPowerup_def spawnHazard_def
  Math_random_def Date_now_def drop_rnd_def LANES_at_def new_NPC_def new_Coin_def
  new_Powerup_def new_Hazard_def hazard_types_def carTypes_def GAME_CONFIG

lemmas objects_eval =
  updateObjects_def NPC_update_def Coin_update_def GameObject_update_def
  updateForwardMovement_def updateLaneChanging_def avoid_def avoidance_triggered_def
  getLaneChangeOffset_def Powerup_update_def Hazard_update_def Date_now_def drop_rnd_def
  LANES_at_def GAME_CONFIG

lemmas collisions_eval =
  checkCollisions_def collidesWith_def getBounds_def createExplosion_def createCoinBurst_def
  activateShield_def takeDamage_def endGame_def stopGameLoop_def collect_def Date_now_def
  drop_rnd_def GAME_CONFIG

lemmas particles_eval = updateParticles_def explosion_particles_die

lemma first_hit_frame:
  "update 3000 session_start (env_half 1700000000000) =
     (cruising 57000 87 1700000000000 [npc_hit], env_half 1700000000000)"
  apply (rule update_playing)
         apply (simp add: start_eval)
        apply (simp add: start_eval)
       apply (simp add: start_eval before_eval)
      apply (simp add: player_step_eval env_half_def)
     apply (simp add: spawn_eval env_half_def)
    apply (simp add: objects_eval env_half_def)
   apply (simp add: collisions_eval env_half_def)
  apply (simp add: particles_eval state_eval)
  done

lemma hit_frame:
  assumes "43000 < tm" and "13 < pw" and "ls + 2000 < now"
  shows "update 3000 (cruising tm pw ls [npc_hit]) (env_half now) =
           (cruising (tm - 3000) (pw - 13) now [npc_hit], env_half now)"
  apply (rule update_playing)
         apply (simp add: state_eval)
        using assms apply (simp add: state_eval)
       apply (simp add: state_eval before_eval)
      using assms apply (simp add: player_step_eval env_half_def)
     using assms apply (simp add: spawn_eval env_half_def)
    apply (simp add: objects_eval env_half_def)
   using assms apply (simp add: collisions_eval env_half_def)
  using assms apply (simp add: particles_eval state_eval)
  done

lemmas state_B_eval =
  state_eval npc_side_def powerup_taken_def shielded_def after_pickup_def hazard_hit_def
  after_hazard_def

lemma pickup_frame:
  "update 2750 session_start (env_B1 1700000000000) = (after_pickup, env_half 1700000000000)"
  apply (rule update_playing)
         apply (simp add: start_eval)
        apply (simp add: start_eval)
       apply (simp add: start_eval before_eval)
      apply (simp add: player_step_eval env_B1_def)
     apply (simp add: spawn_eval env_B1_def)
    apply (simp add: objects_eval env_B1_def)
   apply (simp add: collisions_eval env_B1_def env_half_def)
  apply (simp add: particles_eval state_B_eval)
  done

lemma hazard_frame:
  "update 2750 after_pickup (env_B2 1700000002750) = (after_hazard, env_half 1700000002750)"
  apply (rule update_playing)
         apply (simp add: state_B_eval)
        apply (simp add: state_B_eval)
       apply (simp add: state_B_eval before_eval)
      apply (simp add: player_step_eval env_B2_def)
     apply (simp add: spawn_eval env_B2_def)
    apply (simp add: objects_eval env_B2_def)
   apply (simp add: collisions_eval env_B2_def env_half_def)
  apply (simp add: particles_eval state_B_eval)
  done

lemmas state_C_eval = state_eval boosted20_def boosted40_def msg20_def msg40_def

lemma decay_frame_1:
  assumes "ls + 2000 < now"
  shows "update 10000 (cruising 45000 35 ls [npc_hit]) (env_half now) =
           (boosted20 (cruising 35000 25 now []), env_half now)"
  apply (rule update_playing)
         apply (simp add: state_C_eval)
        apply (simp add: state_C_eval)
       apply (simp add: state_C_eval before_eval)
      apply (simp add: player_step_eval env_half_def)
     using assms apply (simp add: spawn_eval env_half_def)
    apply (simp add: objects_eval env_half_def)
   apply (simp add: collisions_eval env_half_def)
  apply (simp add: particles_eval state_C_eval)
  done

lemma decay_frame_2:
  assumes "ls + 2000 < now"
  shows "update 10000 (boosted20 (cruising 35000 25 ls [])) (env_half now) =
           (boosted20 (cruising 25000 15 now []), env_half now)"
  apply (rule update_playing)
         apply (simp add: state_C_eval)
        apply (simp add: state_C_eval)
       apply (simp add: state_C_eval before_eval)
      apply (simp add: player_step_eval env_half_def)
     using assms apply (simp add: spawn_eval env_half_def)
    apply (simp add: objects_eval env_half_def)
   apply (simp add: collisions_eval env_half_def)
  apply (simp add: particles_eval state_C_eval)
  done

lemma decay_frame_3:
  assumes "ls + 2000 < now"
  shows "update 10000 (boosted20 (cruising 25000 15 ls [])) (env_half now) =
           (boosted40 (boosted20 (cruising 15000 5 now [])), env_half now)"
  apply (rule update_playing)
         apply (simp add: state_C_eval)
        apply (simp add: state_C_eval)
       apply (simp add: state_C_eval before_eval)
      apply (simp add: player_step_eval env_half_def)
     using assms apply (simp add: spawn_eval env_half_def)
    apply (simp add: objects_eval env_half_def)
   apply (simp add: collisions_eval env_half_def)
  apply (simp add: particles_eval state_C_eval)
  done

lemma decay_frame_4:
  assumes "ls + 2000 < now"
  shows "update 5000 (boosted40 (boosted20 (cruising 15000 5 ls []))) (env_half now) =
           (boosted40 (boosted20 (cruising 10000 0 now [])), env_half now)"
  apply (rule update_playing)
         apply (simp add: state_C_eval)
        apply (simp add: state_C_eval)
       apply (simp add: state_C_eval before_eval)
      apply (simp add: player_step_eval env_half_def)
     using assms apply (simp add: spawn_eval env_half_def)
    apply (simp add: objects_eval env_half_def)
   apply (simp add: collisions_eval env_half_def)
  apply (simp add: particles_eval state_C_eval)
  done

lemma running_states:
  "isGameLoopRunning session_start"
  "isGameLoopRunning (cruising tm pw ls ns)"
  "isGameLoopRunning (boosted20 g) = isGameLoopRunning g"
  "isGameLoopRunning (boosted40 g) = isGameLoopRunning g"
  by (simp_all add: start_eval cruising_def boosted20_def boosted40_def)

lemma gameLoop_running: "isGameLoopRunning g \<Longrightarrow> gameLoop dt g e = update dt g e"
  by (simp add: gameLoop_def)

lemmas trace_C_steps =
  gameLoop_running running_states first_hit_frame hit_frame decay_frame_1 decay_frame_2
  decay_frame_3 decay_frame_4

lemma run_5: "run_frames (take 5 frames_C) session_start = cruising 45000 35 1700000012000 [npc_hit]"
  by (simp add: frames_C_def trace_C_steps)

lemma run_6:
  "run_frames (take 6 frames_C) session_start = boosted20 (cruising 35000 25 1700000022000 [])"
  by (simp add: frames_C_def trace_C_steps)

lemma run_8:
  "run_frames (take 8 frames_C) session_start =
     boosted40 (boosted20 (cruising 15000 5 1700000042000 []))"
  by (simp add: frames_C_def trace_C_steps)

lemma run_9:
  "run_frames frames_C session_start =
     boosted40 (boosted20 (cruising 10000 0 1700000047000 []))"
  by (simp add: frames_C_def trace_C_steps)

section \<open>The claims\<close>

subsection \<open>Lane changes\<close>

text \<open>
  C7. \<^verbatim>\<open>changeLane(direction)\<close> does nothing while \<open>laneChangeProgress < 1\<close>. On a settled
  player (\<open>laneChangeProgress = 1\<close>) the new target lane is the old one plus the
  direction, clamped to [0, 2], and whenever that changes the target lane the progress is
  reset to 0.
\<close>

theorem changeLane_only_when_settled:
  "(Player.laneChangeProgress p < 1 \<longrightarrow> changeLane d p = p) \<and>
   (Player.laneChangeProgress p = 1 \<longrightarrow>
      Player.targetLane (changeLane d p) = max 0 (min 2 (Player.targetLane p + d)) \<and>
      (Player.targetLane (changeLane d p) \<noteq> Player.targetLane p \<longrightarrow>
         Player.laneChangeProgress (changeLane d p) = 0))"
  by (simp add: changeLane_def Let_def)

theorem changeLane_only_when_settled_witness:
  "Player.laneChangeProgress player_settled = 1 \<and>
   Player.targetLane (changeLane 1 player_settled) = 2 \<and>
   Player.laneChangeProgress (changeLane 1 player_settled) = 0 \<and>
   changeLane (- 1) (changeLane 1 player_settled) = changeLane 1 player_settled"
  using changeLane_only_when_settled [of player_settled 1]
        changeLane_only_when_settled [of "changeLane 1 player_settled" "- 1"]
  by (simp add: player_settled_eq)

text \<open>
  C10. On a settled player whose target lane is already the outermost one in the
  requested direction (lane 0 with direction -1, lane 2 with direction +1),
  \<^verbatim>\<open>changeLane\<close> returns the player unchanged in every field; in particular
  \<open>laneChangeProgress\<close> stays 1.
\<close>

theorem changeLane_at_boundary_unchanged:
  "Player.laneChangeProgress p = 1 \<Longrightarrow>
   (Player.targetLane p = 0 \<and> d = - 1) \<or> (Player.targetLane p = 2 \<and> d = 1) \<Longrightarrow>
   changeLane d p = p \<and> Player.laneChangeProgress (changeLane d p) = 1"
  by (auto simp: changeLane_def Let_def)

theorem changeLane_at_boundary_unchanged_witness:
  "changeLane (- 1) player_left = player_left \<and>
   Player.laneChangeProgress (changeLane (- 1) player_left) = 1 \<and>
   changeLane 1 player_right = player_right \<and>
   Player.laneChangeProgress (changeLane 1 player_right) = 1"
  using changeLane_at_boundary_unchanged [of player_left "- 1"]
        changeLane_at_boundary_unchanged [of player_right 1]
  by (simp add: player_left_eq player_right_eq)

subsection \<open>Power decay\<close>

text \<open>
  C9. For two sequences of positive frame times with equal sums, running \<^verbatim>\<open>Player.update\<close>
  over each (no damage, no pickups in between) ends with the same power: after a
  non-empty sequence the power is the initial power minus one unit per second of total
  time, clamped at zero. The arithmetic is that of the reals.
\<close>

theorem power_decay_framerate_independent:
  assumes "\<forall>dt\<in>set as. 0 < dt" and "\<forall>dt\<in>set bs. 0 < dt"
      and "sum_list as = sum_list bs"
  shows "power_lvl (fst (Player_updates as p e)) = power_lvl (fst (Player_updates bs p e')) \<and>
         (as \<noteq> [] \<longrightarrow>
            power_lvl (fst (Player_updates as p e)) = max 0 (power_lvl p - sum_list as / 1000))"
proof (cases "as = []")
  case True
  have "bs = []"
    using sum_list_pos_nonempty [of bs] assms(2,3) True by auto
  with True show ?thesis by simp
next
  case False
  have "bs \<noteq> []"
    using sum_list_pos_nonempty [of as] assms(1,3) False by auto
  moreover have "\<forall>dt\<in>set as. 0 \<le> dt" "\<forall>dt\<in>set bs. 0 \<le> dt"
    using assms(1,2) by (auto intro: less_imp_le)
  ultimately show ?thesis
    using False assms(3) Player_updates_power [of as p e] Player_updates_power [of bs p e']
    by simp
qed

theorem power_decay_framerate_independent_witness:
  "power_lvl (fst (Player_updates [100, 200] (new_Player (env_half 0)) (env_half 0))) =
   power_lvl (fst (Player_updates [300] (new_Player (env_half 0)) (env_half 5))) \<and>
   power_lvl (fst (Player_updates [100, 200] (new_Player (env_half 0)) (env_half 0))) = 997 / 10 \<and>
   power_lvl (fst (Player_updates [70000, 50000] (new_Player (env_half 0)) (env_half 0))) =
   power_lvl (fst (Player_updates [40000, 40000, 40000] (new_Player (env_half 0)) (env_half 5))) \<and>
   power_lvl (fst (Player_updates [70000, 50000] (new_Player (env_half 0)) (env_half 0))) = 0"
  using power_decay_framerate_independent
          [of "[100, 200]" "[300]" "new_Player (env_half 0)" "env_half 0" "env_half 5"]
        power_decay_framerate_independent
          [of "[70000, 50000]" "[40000, 40000, 40000]" "new_Player (env_half 0)" "env_half 0" "env_half 5"]
  by (simp add: new_Player_def)


end
